theory Spec2Isabelle
  imports Complex_Main "HOL-Library.AList"
begin

section \<open>Sandbox manager: data model\<close>

text \<open>
  The embedding follows \<^verbatim>\<open>agent/core/sandbox_manager.py\<close> (class \<^verbatim>\<open>SandboxManager\<close>) and
  \<^verbatim>\<open>agent/tests/plugins/realtime_streaming.py\<close> (class \<^verbatim>\<open>RealtimeTestStreamer\<close>).
  Python dictionaries keyed by sandbox id are association lists, the table \<^verbatim>\<open>sandboxes\<close> of
  the store is the list of its rows, and every raise is a value of the type \<open>error\<close>.
  What the external collaborators answer (the E2B provider, the Supabase store, the clock,
  \<^verbatim>\<open>uuid4\<close>) is given to each operation in an environment record, so that every outcome
  of an external call, a raise included, is an input of the model.
  Timestamps are microseconds (the resolution of \<^verbatim>\<open>datetime\<close>) as integers.
\<close>

type_synonym time = int

datatype 'a outcome = Returns 'a | Raises string

datatype handle = Handle string

datatype pcall = PCreate string | PStart string string | PClose string

datatype error =
    LimitReached int
  | ProviderError string
  | StoreError string
  | SandboxCreationFailed error
  | SandboxNotFound string
  | SecurityValidationFailed string
  | CodeExecutionFailed error

datatype message =
    ErrorMsg error
  | ExecutingCode string
  | ExecutionCompleted int int
  | OutputLine string

datatype event_data =
    CreatedData string string int string string
  | DestroyedData string string

datatype stream_event =
    Log string string message "string option"
  | SandboxEvent string string event_data

record sandbox_data =
  internal_id :: string
  e2b_sandbox_id :: string
  user_id :: string
  template :: string
  status :: string
  boot_time_ms :: int
  cpu_limit :: string
  memory_limit :: string
  disk_limit :: string
  last_activity_at :: time
  expires_at :: time
  task_id :: "string option"
  created_at :: time

record config =
  default_template :: string
  max_execution_time :: nat
  max_memory :: string
  max_sandboxes_per_user :: int

text \<open>
  The manager's state. \<open>active_sandboxes\<close> and \<open>sandbox_metadata\<close> are the two
  dictionaries of the class; \<open>sandboxes_table\<close> is the table \<^verbatim>\<open>sandboxes\<close> of the store;
  \<open>stream\<close> holds the events the sink has accepted; \<open>tasks\<close> holds the emissions
  scheduled with \<^verbatim>\<open>asyncio.create_task\<close> (scheduled, never awaited by the manager);
  \<open>provider_calls\<close> is the trace of calls made to the provider.
\<close>

record manager =
  active_sandboxes :: "(string \<times> handle) list"
  sandbox_metadata :: "(string \<times> sandbox_data) list"
  sandboxes_table :: "sandbox_data list"
  stream :: "stream_event list"
  tasks :: "stream_event list"
  provider_calls :: "pcall list"

definition dict_in :: "'k \<Rightarrow> ('k \<times> 'v) list \<Rightarrow> bool" where
  "dict_in k d = (map_of d k \<noteq> None)"

definition one_hour :: time where
  "one_hour = 3600 * 1000000"

section \<open>Event emission\<close>

text \<open>
  Modelled from the spec: the class \<^verbatim>\<open>RealtimeStreamer\<close> (module
  \<^verbatim>\<open>agent/core/realtime_streamer.py\<close>, with its methods \<^verbatim>\<open>stream_log\<close> and
  \<^verbatim>\<open>stream_sandbox_event\<close>) is imported by the manager but is not among the sources.
  Section 4.5 of the specification: emission is a best-effort delivery to an external sink;
  any sink failure is caught, logged and discarded, and emission never raises into the
  caller. The argument \<open>sink\<close> says whether the sink accepts the event.
\<close>

definition emit :: "(stream_event \<Rightarrow> bool) \<Rightarrow> stream_event \<Rightarrow> manager \<Rightarrow> manager" where
  "emit sink ev s = (if sink ev then s\<lparr>stream := stream s @ [ev]\<rparr> else s)"

definition stream_log ::
  "(stream_event \<Rightarrow> bool) \<Rightarrow> string \<Rightarrow> string \<Rightarrow> message \<Rightarrow> string option \<Rightarrow> manager \<Rightarrow> manager" where
  "stream_log sink sandbox_id log_type msg tid s = emit sink (Log sandbox_id log_type msg tid) s"

definition stream_sandbox_event ::
  "(stream_event \<Rightarrow> bool) \<Rightarrow> string \<Rightarrow> string \<Rightarrow> event_data \<Rightarrow> manager \<Rightarrow> manager" where
  "stream_sandbox_event sink sandbox_id event_type d s = emit sink (SandboxEvent sandbox_id event_type d) s"

section \<open>Store queries and updates\<close>

definition get_user_sandbox_count :: "string option \<Rightarrow> string \<Rightarrow> manager \<Rightarrow> error + nat" where
  "get_user_sandbox_count fault uid s =
     (case fault of
        Some m \<Rightarrow> Inl (StoreError m)
      | None \<Rightarrow>
          Inr (length (filter (\<lambda>r. status r = ''running'')
                 (filter (\<lambda>r. user_id r = uid) (sandboxes_table s)))))"

definition touch_rows :: "string \<Rightarrow> time \<Rightarrow> sandbox_data list \<Rightarrow> sandbox_data list" where
  "touch_rows sandbox_id now rows =
     map (\<lambda>r. if e2b_sandbox_id r = sandbox_id then r\<lparr>last_activity_at := now\<rparr> else r) rows"

definition update_sandbox_activity ::
  "string option \<Rightarrow> time \<Rightarrow> string \<Rightarrow> manager \<Rightarrow> error + manager" where
  "update_sandbox_activity fault now sandbox_id s =
     (case fault of
        Some m \<Rightarrow> Inl (StoreError m)
      | None \<Rightarrow> Inr (s\<lparr>sandboxes_table := touch_rows sandbox_id now (sandboxes_table s)\<rparr>))"

definition stop_rows :: "string \<Rightarrow> time \<Rightarrow> sandbox_data list \<Rightarrow> sandbox_data list" where
  "stop_rows sandbox_id now rows =
     map (\<lambda>r. if e2b_sandbox_id r = sandbox_id
               then r\<lparr>status := ''stopped'', last_activity_at := now\<rparr> else r) rows"

definition select_expired :: "time \<Rightarrow> sandbox_data list \<Rightarrow> sandbox_data list" where
  "select_expired now rows =
     filter (\<lambda>r. status r = ''running'') (filter (\<lambda>r. expires_at r < now) rows)"

section \<open>create\_sandbox\<close>

record create_env =
  count_fault :: "string option"
  sandbox_sync :: "string \<Rightarrow> string outcome"
  measured_boot_time_ms :: int
  uuid4 :: string
  utcnow_activity :: time
  utcnow_expires :: time
  utcnow_created :: time
  insert_fault :: "string option"
  create_sink :: "stream_event \<Rightarrow> bool"

record create_result =
  res_sandbox_id :: string
  res_internal_id :: string
  res_boot_time_ms :: int
  res_template :: string
  res_status :: string
  res_expires_at :: time

text \<open>
  \<^verbatim>\<open>template or self.default_template\<close>: \<^verbatim>\<open>None\<close> and the empty string are both falsy.
\<close>

definition template_to_use :: "config \<Rightarrow> string option \<Rightarrow> string" where
  "template_to_use cfg tmpl =
     (case tmpl of None \<Rightarrow> default_template cfg
      | Some t \<Rightarrow> if t = [] then default_template cfg else t)"

text \<open>
  The dictionary \<^verbatim>\<open>sandbox_data\<close>. The source reads the clock three times while it
  builds the dictionary (\<^verbatim>\<open>last_activity_at\<close>, \<^verbatim>\<open>expires_at\<close>, \<^verbatim>\<open>created_at\<close>, in this
  order); the three readings are three fields of the environment.
\<close>

definition build_sandbox_data ::
  "config \<Rightarrow> create_env \<Rightarrow> string \<Rightarrow> string option \<Rightarrow> string \<Rightarrow> string \<Rightarrow> sandbox_data" where
  "build_sandbox_data cfg env uid tid tmpl hid =
     \<lparr> internal_id = uuid4 env,
       e2b_sandbox_id = hid,
       user_id = uid,
       template = tmpl,
       status = ''running'',
       boot_time_ms = measured_boot_time_ms env,
       cpu_limit = ''1000m'',
       memory_limit = max_memory cfg @ ''Mi'',
       disk_limit = ''10Gi'',
       last_activity_at = utcnow_activity env,
       expires_at = utcnow_expires env + one_hour,
       task_id = tid,
       created_at = utcnow_created env \<rparr>"

text \<open>The body of the \<^verbatim>\<open>try\<close> block: the state reached when it raises is kept.\<close>

definition create_body ::
  "config \<Rightarrow> create_env \<Rightarrow> string \<Rightarrow> string option \<Rightarrow> string option \<Rightarrow> manager
     \<Rightarrow> (error + create_result) \<times> manager" where
  "create_body cfg env uid tid tmpl s =
     (case get_user_sandbox_count (count_fault env) uid s of
        Inl e \<Rightarrow> (Inl e, s)
      | Inr user_sandboxes \<Rightarrow>
          if int user_sandboxes \<ge> max_sandboxes_per_user cfg
          then (Inl (LimitReached (max_sandboxes_per_user cfg)), s)
          else
            let t = template_to_use cfg tmpl;
                s1 = s\<lparr>provider_calls := provider_calls s @ [PCreate t]\<rparr>
            in (case sandbox_sync env t of
                  Raises m \<Rightarrow> (Inl (ProviderError m), s1)
                | Returns hid \<Rightarrow>
                    let d = build_sandbox_data cfg env uid tid t hid
                    in (case insert_fault env of
                          Some m \<Rightarrow> (Inl (StoreError m), s1)
                        | None \<Rightarrow>
                            let s2 = s1\<lparr>sandboxes_table := sandboxes_table s1 @ [d]\<rparr>;
                                s3 = s2\<lparr>active_sandboxes :=
                                          AList.update hid (Handle hid) (active_sandboxes s2),
                                        sandbox_metadata :=
                                          AList.update hid d (sandbox_metadata s2)\<rparr>;
                                s4 = stream_sandbox_event (create_sink env) hid ''sandbox_created''
                                       (CreatedData hid (uuid4 env) (measured_boot_time_ms env)
                                          t ''running'') s3
                            in (Inr \<lparr> res_sandbox_id = hid,
                                      res_internal_id = uuid4 env,
                                      res_boot_time_ms = measured_boot_time_ms env,
                                      res_template = t,
                                      res_status = ''running'',
                                      res_expires_at = expires_at d \<rparr>, s4))))"

definition create_sandbox ::
  "config \<Rightarrow> create_env \<Rightarrow> string \<Rightarrow> string option \<Rightarrow> string option \<Rightarrow> manager
     \<Rightarrow> (error + create_result) \<times> manager" where
  "create_sandbox cfg env uid tid tmpl s =
     (case create_body cfg env uid tid tmpl s of
        (Inl e, s') \<Rightarrow> (Inl (SandboxCreationFailed e), s')
      | (Inr r, s') \<Rightarrow> (Inr r, s'))"

section \<open>execute\_code\<close>

record security_result =
  is_safe :: bool
  reason :: string

datatype channel = Stdout | Stderr

record execution =
  proc_exit_code :: int
  proc_stdout :: string
  proc_stderr :: string

text \<open>
  What one call of \<^verbatim>\<open>sandbox.process.start\<close> does: the line callbacks it invokes, in
  order, and then how it ends.
\<close>

record provider_run =
  callbacks :: "(channel \<times> string) list"
  finish :: "execution outcome"

record exec_env =
  validate_code :: "string \<Rightarrow> security_result"
  activity_fault :: "string option"
  exec_utcnow :: time
  process_start :: "string \<Rightarrow> string \<Rightarrow> nat \<Rightarrow> provider_run"
  measured_execution_time_ms :: int
  exec_sink :: "stream_event \<Rightarrow> bool"

record exec_result =
  exit_code :: int
  stdout :: string
  stderr :: string
  execution_time_ms :: int

fun join :: "string \<Rightarrow> string list \<Rightarrow> string" where
  "join sep [] = []"
| "join sep [x] = x"
| "join sep (x # y # ys) = x @ sep @ join sep (y # ys)"

definition newline :: string where
  "newline = [CHR 0x0A]"

text \<open>\<^verbatim>\<open>python3 -c "..."\<close> with every double quote of the code escaped by a backslash.\<close>

definition python_cmd :: "string \<Rightarrow> string" where
  "python_cmd code =
     ''python3 -c '' @ [CHR 0x22]
       @ concat (map (\<lambda>c. if c = CHR 0x22 then [CHR 0x5C, CHR 0x22] else [c]) code)
       @ [CHR 0x22]"

text \<open>
  The local state of \<^verbatim>\<open>_execute_with_streaming\<close>: the two line buffers, and the manager,
  whose scheduled tasks grow with each callback.
\<close>

record capture =
  stdout_lines :: "string list"
  stderr_lines :: "string list"
  mgr :: manager

definition on_stdout :: "string \<Rightarrow> string option \<Rightarrow> string \<Rightarrow> capture \<Rightarrow> capture" where
  "on_stdout sandbox_id tid line c =
     c\<lparr>stdout_lines := stdout_lines c @ [line],
       mgr := (mgr c)\<lparr>tasks := tasks (mgr c) @ [Log sandbox_id ''stdout'' (OutputLine line) tid]\<rparr>\<rparr>"

definition on_stderr :: "string \<Rightarrow> string option \<Rightarrow> string \<Rightarrow> capture \<Rightarrow> capture" where
  "on_stderr sandbox_id tid line c =
     c\<lparr>stderr_lines := stderr_lines c @ [line],
       mgr := (mgr c)\<lparr>tasks := tasks (mgr c) @ [Log sandbox_id ''stderr'' (OutputLine line) tid]\<rparr>\<rparr>"

fun run_callbacks ::
  "string \<Rightarrow> string option \<Rightarrow> (channel \<times> string) list \<Rightarrow> capture \<Rightarrow> capture" where
  "run_callbacks sandbox_id tid [] c = c"
| "run_callbacks sandbox_id tid ((Stdout, line) # cbs) c =
     run_callbacks sandbox_id tid cbs (on_stdout sandbox_id tid line c)"
| "run_callbacks sandbox_id tid ((Stderr, line) # cbs) c =
     run_callbacks sandbox_id tid cbs (on_stderr sandbox_id tid line c)"

definition execute_with_streaming ::
  "config \<Rightarrow> exec_env \<Rightarrow> handle \<Rightarrow> string \<Rightarrow> string \<Rightarrow> string option \<Rightarrow> manager
     \<Rightarrow> (error + exec_result) \<times> manager" where
  "execute_with_streaming cfg env sandbox sandbox_id code tid s =
     (case sandbox of Handle hid \<Rightarrow>
        let cmd = python_cmd code;
            run = process_start env hid cmd (max_execution_time cfg);
            s1 = s\<lparr>provider_calls := provider_calls s @ [PStart hid cmd]\<rparr>;
            c = run_callbacks sandbox_id tid (callbacks run)
                  \<lparr>stdout_lines = [], stderr_lines = [], mgr = s1\<rparr>
        in (case finish run of
              Raises m \<Rightarrow> (Inl (ProviderError m), mgr c)
            | Returns ex \<Rightarrow>
                (Inr \<lparr> exit_code = proc_exit_code ex,
                       stdout = join newline (stdout_lines c),
                       stderr = join newline (stderr_lines c),
                       execution_time_ms = 0 \<rparr>, mgr c)))"

text \<open>The call without callbacks: the provider's own buffers are returned.\<close>

definition execute_buffered ::
  "config \<Rightarrow> exec_env \<Rightarrow> handle \<Rightarrow> string \<Rightarrow> manager \<Rightarrow> (error + exec_result) \<times> manager" where
  "execute_buffered cfg env sandbox code s =
     (case sandbox of Handle hid \<Rightarrow>
        let cmd = python_cmd code;
            run = process_start env hid cmd (max_execution_time cfg);
            s1 = s\<lparr>provider_calls := provider_calls s @ [PStart hid cmd]\<rparr>
        in (case finish run of
              Raises m \<Rightarrow> (Inl (ProviderError m), s1)
            | Returns ex \<Rightarrow>
                (Inr \<lparr> exit_code = proc_exit_code ex,
                       stdout = proc_stdout ex,
                       stderr = proc_stderr ex,
                       execution_time_ms = 0 \<rparr>, s1)))"

text \<open>The body of the \<^verbatim>\<open>try\<close> block of \<^verbatim>\<open>execute_code\<close>.\<close>

definition execute_body ::
  "config \<Rightarrow> exec_env \<Rightarrow> handle \<Rightarrow> string \<Rightarrow> string \<Rightarrow> string option \<Rightarrow> bool \<Rightarrow> manager
     \<Rightarrow> (error + exec_result) \<times> manager" where
  "execute_body cfg env sandbox sandbox_id code tid stream_output s =
     (case update_sandbox_activity (activity_fault env) (exec_utcnow env) sandbox_id s of
        Inl e \<Rightarrow> (Inl e, s)
      | Inr s1 \<Rightarrow>
          let s2 = (if stream_output
                    then stream_log (exec_sink env) sandbox_id ''code_execution_start''
                           (ExecutingCode code) tid s1
                    else s1)
          in (case (if stream_output
                    then execute_with_streaming cfg env sandbox sandbox_id code tid s2
                    else execute_buffered cfg env sandbox code s2) of
                (Inl e, s3) \<Rightarrow> (Inl e, s3)
              | (Inr r, s3) \<Rightarrow>
                  let result = r\<lparr>execution_time_ms := measured_execution_time_ms env\<rparr>;
                      s4 = (if stream_output
                            then stream_log (exec_sink env) sandbox_id ''code_execution_complete''
                                   (ExecutionCompleted (measured_execution_time_ms env)
                                      (exit_code result)) tid s3
                            else s3)
                  in (Inr result, s4)))"

definition execute_code ::
  "config \<Rightarrow> exec_env \<Rightarrow> string \<Rightarrow> string \<Rightarrow> string option \<Rightarrow> bool \<Rightarrow> manager
     \<Rightarrow> (error + exec_result) \<times> manager" where
  "execute_code cfg env sandbox_id code tid stream_output s =
     (case map_of (active_sandboxes s) sandbox_id of
        None \<Rightarrow> (Inl (SandboxNotFound sandbox_id), s)
      | Some sandbox \<Rightarrow>
          let security = validate_code env code
          in if \<not> is_safe security
             then
               let err = SecurityValidationFailed (reason security);
                   s1 = (if stream_output
                         then stream_log (exec_sink env) sandbox_id ''security_warning''
                                (ErrorMsg err) tid s
                         else s)
               in (Inl err, s1)
             else
               (case execute_body cfg env sandbox sandbox_id code tid stream_output s of
                  (Inr r, s') \<Rightarrow> (Inr r, s')
                | (Inl e, s') \<Rightarrow>
                    let err = CodeExecutionFailed e;
                        s'' = (if stream_output
                               then stream_log (exec_sink env) sandbox_id ''code_execution_error''
                                      (ErrorMsg err) tid s'
                               else s')
                    in (Inl err, s'')))"

section \<open>destroy\_sandbox and cleanup\_expired\_sandboxes\<close>

record destroy_env =
  close_fault :: "string option"
  update_fault :: "string option"
  destroy_utcnow :: time
  destroy_sink :: "stream_event \<Rightarrow> bool"

text \<open>
  The body of the \<^verbatim>\<open>try\<close> block of \<^verbatim>\<open>destroy_sandbox\<close>. A call of \<^verbatim>\<open>close\<close> is
  recorded in the trace whether it returns or raises.
\<close>

definition destroy_body :: "destroy_env \<Rightarrow> string \<Rightarrow> manager \<Rightarrow> (error + bool) \<times> manager" where
  "destroy_body env sandbox_id s =
     (case (if dict_in sandbox_id (active_sandboxes s)
            then
              let s1 = s\<lparr>provider_calls := provider_calls s @ [PClose sandbox_id]\<rparr>
              in (case close_fault env of
                    Some m \<Rightarrow> (Some (ProviderError m), s1)
                  | None \<Rightarrow>
                      (None, s1\<lparr>active_sandboxes := AList.delete sandbox_id (active_sandboxes s1)\<rparr>))
            else (None, s)) of
        (Some e, s1) \<Rightarrow> (Inl e, s1)
      | (None, s1) \<Rightarrow>
          let s2 = (if dict_in sandbox_id (sandbox_metadata s1)
                    then s1\<lparr>sandbox_metadata := AList.delete sandbox_id (sandbox_metadata s1)\<rparr>
                    else s1)
          in (case update_fault env of
                Some m \<Rightarrow> (Inl (StoreError m), s2)
              | None \<Rightarrow>
                  let s3 = s2\<lparr>sandboxes_table :=
                                stop_rows sandbox_id (destroy_utcnow env) (sandboxes_table s2)\<rparr>;
                      s4 = stream_sandbox_event (destroy_sink env) sandbox_id ''sandbox_destroyed''
                             (DestroyedData sandbox_id ''stopped'') s3
                  in (Inr True, s4)))"

definition destroy_sandbox :: "destroy_env \<Rightarrow> string \<Rightarrow> manager \<Rightarrow> bool \<times> manager" where
  "destroy_sandbox env sandbox_id s =
     (case destroy_body env sandbox_id s of
        (Inr b, s') \<Rightarrow> (b, s')
      | (Inl e, s') \<Rightarrow> (False, s'))"

text \<open>
  The loop of \<^verbatim>\<open>cleanup_expired_sandboxes\<close> over the selected rows; \<open>envs i\<close> is the
  environment of the \<open>i\<close>-th call of \<^verbatim>\<open>destroy_sandbox\<close>.
\<close>

fun cleanup_loop ::
  "(nat \<Rightarrow> destroy_env) \<Rightarrow> nat \<Rightarrow> sandbox_data list \<Rightarrow> nat \<Rightarrow> manager \<Rightarrow> nat \<times> manager" where
  "cleanup_loop envs i [] cleaned_count s = (cleaned_count, s)"
| "cleanup_loop envs i (r # rs) cleaned_count s =
     (case destroy_sandbox (envs i) (e2b_sandbox_id r) s of
        (ok, s') \<Rightarrow>
          cleanup_loop envs (Suc i) rs (if ok then cleaned_count + 1 else cleaned_count) s')"

definition cleanup_expired_sandboxes ::
  "string option \<Rightarrow> time \<Rightarrow> (nat \<Rightarrow> destroy_env) \<Rightarrow> manager \<Rightarrow> nat \<times> manager" where
  "cleanup_expired_sandboxes select_fault now envs s =
     (case select_fault of
        Some m \<Rightarrow> (0, s)
      | None \<Rightarrow> cleanup_loop envs 0 (select_expired now (sandboxes_table s)) 0 s)"

section \<open>The test-run streamer\<close>

text \<open>
  \<^verbatim>\<open>RealtimeTestStreamer\<close> of \<^verbatim>\<open>agent/tests/plugins/realtime_streaming.py\<close>. Coverage,
  durations and rates are Python floats; they are real numbers here (the comparisons with
  80 are exact on floats, a NaN apart). What is printed is a list of console lines, what
  the table \<^verbatim>\<open>logs\<close> has accepted is a list of entries.
\<close>

record test_event =
  event_type :: string
  test_id :: string
  test_name :: string
  duration :: "real option"
  test_error :: "string option"
  event_coverage :: "real option"
  timestamp :: real
  category :: string

record summary =
  sum_session_id :: string
  sum_passed :: int
  sum_failed :: int
  sum_skipped :: int
  sum_coverage :: real
  sum_duration :: real
  sum_success_rate :: real
  coverage_met :: bool
  sum_categories :: "(string \<times> nat) list"

datatype payload =
    EventPayload test_event
  | SessionStarted string int int
  | SessionCompleted summary

record log_entry =
  level :: string
  entry_data :: payload
  entry_source :: string

datatype console_line =
    Rule
  | SessionCompletedIn real
  | Results int int int
  | SuccessRate real
  | Coverage real
  | TestCategories
  | CategoryCount string nat
  | CoverageRequirementMet real
  | CoverageRequirementFailed real
  | BuildWillFail
  | SessionEnd
  | FailedToLogSessionEnd string
  | Streamed string string
  | FailedToStream string
  | CoverageBelowThreshold real

record test_streamer =
  supabase :: bool
  session_id :: string
  start_time :: real
  category_counts :: "(string \<times> nat) list"
  logs_table :: "log_entry list"
  console :: "console_line list"

text \<open>
  \<^verbatim>\<open>stream_event\<close>: \<open>fault\<close> is what the \<^verbatim>\<open>try\<close> block (building the entry and
  inserting it into \<^verbatim>\<open>logs\<close>) raises, if it raises. The result type keeps a place for an
  exception leaving the method.
\<close>

definition sink_insert :: "string option \<Rightarrow> log_entry \<Rightarrow> test_streamer \<Rightarrow> string + test_streamer" where
  "sink_insert fault e st =
     (case fault of
        Some m \<Rightarrow> Inl m
      | None \<Rightarrow> Inr (st\<lparr>logs_table := logs_table st @ [e]\<rparr>))"

definition stream_event :: "string option \<Rightarrow> test_event \<Rightarrow> test_streamer \<Rightarrow> string + test_streamer" where
  "stream_event fault ev st =
     (if \<not> supabase st then Inr st
      else
        (case sink_insert fault
                \<lparr>level = ''info'', entry_data = EventPayload ev, entry_source = ''test''\<rparr> st of
           Inr st' \<Rightarrow> Inr (st'\<lparr>console := console st' @ [Streamed (event_type ev) (test_name ev)]\<rparr>)
         | Inl m \<Rightarrow> Inr (st\<lparr>console := console st @ [FailedToStream m]\<rparr>)))"

definition end_session ::
  "string option \<Rightarrow> real \<Rightarrow> int \<Rightarrow> int \<Rightarrow> int \<Rightarrow> real \<Rightarrow> test_streamer \<Rightarrow> test_streamer" where
  "end_session fault now passed failed skipped coverage st =
     (let dur = now - start_time st;
          total = passed + failed + skipped;
          success_rate = (if total > 0 then real_of_int passed / real_of_int total * 100 else 0);
          st1 = st\<lparr>console := console st
                   @ [Rule, SessionCompletedIn dur, Results passed failed skipped,
                      SuccessRate success_rate, Coverage coverage, TestCategories]
                   @ map (\<lambda>(c, n). CategoryCount c n) (filter (\<lambda>(c, n). n > 0) (category_counts st))
                   @ (if coverage \<ge> 80 then [CoverageRequirementMet coverage]
                      else [CoverageRequirementFailed coverage, BuildWillFail])
                   @ [SessionEnd]\<rparr>
      in if supabase st1
         then
           (case sink_insert fault
                   \<lparr>level = (if coverage \<ge> 80 then ''info'' else ''error''),
                    entry_data = SessionCompleted
                      \<lparr>sum_session_id = session_id st1, sum_passed = passed, sum_failed = failed,
                       sum_skipped = skipped, sum_coverage = coverage, sum_duration = dur,
                       sum_success_rate = success_rate, coverage_met = (coverage \<ge> 80),
                       sum_categories = category_counts st1\<rparr>,
                    entry_source = ''test''\<rparr> st1 of
              Inr st2 \<Rightarrow> st2
            | Inl m \<Rightarrow> st1\<lparr>console := console st1 @ [FailedToLogSessionEnd m]\<rparr>)
         else st1)"

text \<open>
  \<^verbatim>\<open>pytest_sessionfinish\<close>: the outcomes are counted, the coverage is the constant the
  source uses, the session is ended, and a coverage below 80 adds one to the failures of
  the pytest session. \<open>enforce_coverage\<close> is that last conditional.
\<close>

definition enforce_coverage :: "real \<Rightarrow> int \<Rightarrow> test_streamer \<Rightarrow> int \<times> test_streamer" where
  "enforce_coverage coverage testsfailed st =
     (if coverage < 80
      then (testsfailed + 1, st\<lparr>console := console st @ [CoverageBelowThreshold coverage]\<rparr>)
      else (testsfailed, st))"

definition pytest_sessionfinish ::
  "string option \<Rightarrow> real \<Rightarrow> string list \<Rightarrow> int \<Rightarrow> test_streamer \<Rightarrow> int \<times> test_streamer" where
  "pytest_sessionfinish fault now outcomes testsfailed st =
     (let passed = int (length (filter (\<lambda>r. r = ''passed'') outcomes));
          failed = int (length (filter (\<lambda>r. r = ''failed'') outcomes));
          skipped = int (length (filter (\<lambda>r. r = ''skipped'') outcomes));
          coverage = 85
      in enforce_coverage coverage testsfailed
           (end_session fault now passed failed skipped coverage st))"

section \<open>Auxiliary notions used by the statements\<close>

text \<open>How many times \<^verbatim>\<open>close\<close> was called on a sandbox, read off the provider trace.\<close>

definition close_count :: "string \<Rightarrow> manager \<Rightarrow> nat" where
  "close_count sandbox_id s = length (filter (\<lambda>c. c = PClose sandbox_id) (provider_calls s))"

text \<open>A sandbox is terminated: it is not tracked as active and no row of it is running.\<close>

definition terminated :: "string \<Rightarrow> manager \<Rightarrow> bool" where
  "terminated sandbox_id s =
     (\<not> dict_in sandbox_id (active_sandboxes s)
      \<and> filter (\<lambda>r. e2b_sandbox_id r = sandbox_id \<and> status r \<noteq> ''stopped'') (sandboxes_table s) = [])"

text \<open>The output lines carried by the log events of one type, in order.\<close>

fun line_of :: "string \<Rightarrow> stream_event \<Rightarrow> string list" where
  "line_of ty (Log sid lt (OutputLine l) tid) = (if lt = ty then [l] else [])"
| "line_of ty _ = []"

definition streamed_lines :: "string \<Rightarrow> stream_event list \<Rightarrow> string list" where
  "streamed_lines ty evs = concat (map (line_of ty) evs)"

text \<open>The lines the provider delivers on one channel, in order.\<close>

definition delivered :: "channel \<Rightarrow> (channel \<times> string) list \<Rightarrow> string list" where
  "delivered ch cbs = map snd (filter (\<lambda>p. fst p = ch) cbs)"

text \<open>
  Repeated calls of \<^verbatim>\<open>destroy_sandbox\<close> on one id, each with its own environment: the
  results in order and the final state.
\<close>

fun destroy_repeatedly :: "destroy_env list \<Rightarrow> string \<Rightarrow> manager \<Rightarrow> bool list \<times> manager" where
  "destroy_repeatedly [] sandbox_id s = ([], s)"
| "destroy_repeatedly (env # envs) sandbox_id s =
     (case destroy_sandbox env sandbox_id s of
        (b, s') \<Rightarrow> (case destroy_repeatedly envs sandbox_id s' of (bs, s'') \<Rightarrow> (b # bs, s'')))"

text \<open>
  The results of the calls of \<^verbatim>\<open>destroy_sandbox\<close> made by the loop of the sweep, one per
  selected row, in order (the loop itself only keeps their count).
\<close>

fun cleanup_results :: "(nat \<Rightarrow> destroy_env) \<Rightarrow> nat \<Rightarrow> sandbox_data list \<Rightarrow> manager \<Rightarrow> bool list" where
  "cleanup_results envs i [] s = []"
| "cleanup_results envs i (r # rs) s =
     (case destroy_sandbox (envs i) (e2b_sandbox_id r) s of
        (ok, s') \<Rightarrow> ok # cleanup_results envs (Suc i) rs s')"

text \<open>A row with the activity timestamp masked: everything of the row but that field.\<close>

definition mask_activity :: "sandbox_data \<Rightarrow> sandbox_data" where
  "mask_activity r = r\<lparr>last_activity_at := 0\<rparr>"

text \<open>The event \<^verbatim>\<open>create_sandbox\<close> streams for a sandbox it has created.\<close>

definition created_event :: "config \<Rightarrow> create_env \<Rightarrow> string option \<Rightarrow> string \<Rightarrow> stream_event" where
  "created_event cfg env tmpl hid =
     SandboxEvent hid ''sandbox_created''
       (CreatedData hid (uuid4 env) (measured_boot_time_ms env) (template_to_use cfg tmpl) ''running'')"

text \<open>The event a line callback schedules for one delivered line.\<close>

fun line_event :: "string \<Rightarrow> string option \<Rightarrow> channel \<times> string \<Rightarrow> stream_event" where
  "line_event sid tid (Stdout, l) = Log sid ''stdout'' (OutputLine l) tid"
| "line_event sid tid (Stderr, l) = Log sid ''stderr'' (OutputLine l) tid"

text \<open>The lines \<^verbatim>\<open>end_session\<close> prints for the coverage requirement.\<close>

definition verdict_lines :: "real \<Rightarrow> console_line list" where
  "verdict_lines coverage =
     (if coverage \<ge> 80 then [CoverageRequirementMet coverage]
      else [CoverageRequirementFailed coverage, BuildWillFail])"

text \<open>What one call has added to the console and to the table \<^verbatim>\<open>logs\<close>.\<close>

definition new_console :: "test_streamer \<Rightarrow> test_streamer \<Rightarrow> console_line list" where
  "new_console st st' = drop (length (console st)) (console st')"

definition new_logs :: "test_streamer \<Rightarrow> test_streamer \<Rightarrow> log_entry list" where
  "new_logs st st' = drop (length (logs_table st)) (logs_table st')"

text \<open>The console lines that report on the coverage requirement.\<close>

fun is_verdict :: "console_line \<Rightarrow> bool" where
  "is_verdict (CoverageRequirementMet c) = True"
| "is_verdict (CoverageRequirementFailed c) = True"
| "is_verdict BuildWillFail = True"
| "is_verdict _ = False"

text \<open>
  Of a session summary in \<^verbatim>\<open>logs\<close>: its level, its \<^verbatim>\<open>coverage_met\<close> and its number of
  failed tests.
\<close>

fun summary_of :: "log_entry \<Rightarrow> (string \<times> bool \<times> int) list" where
  "summary_of e =
     (case entry_data e of
        SessionCompleted sm \<Rightarrow> [(level e, coverage_met sm, sum_failed sm)]
      | _ \<Rightarrow> [])"

text \<open>A row of a sandbox that is not stopped.\<close>

definition live_row :: "string \<Rightarrow> sandbox_data \<Rightarrow> bool" where
  "live_row x r = (e2b_sandbox_id r = x \<and> status r \<noteq> ''stopped'')"

section \<open>Concrete inputs\<close>

definition cfg0 :: config where
  "cfg0 = \<lparr>default_template = ''Python3'', max_execution_time = 300,
           max_memory = ''1024'', max_sandboxes_per_user = 3\<rparr>"

definition empty_manager :: manager where
  "empty_manager = \<lparr>active_sandboxes = [], sandbox_metadata = [], sandboxes_table = [],
                    stream = [], tasks = [], provider_calls = []\<rparr>"

definition row0 :: sandbox_data where
  "row0 = \<lparr>internal_id = ''u-1'', e2b_sandbox_id = ''sbx-1'', user_id = ''alice'',
           template = ''Python3'', status = ''running'', boot_time_ms = 120,
           cpu_limit = ''1000m'', memory_limit = ''1024Mi'', disk_limit = ''10Gi'',
           last_activity_at = 10, expires_at = 3600000010, task_id = None, created_at = 10\<rparr>"

definition manager1 :: manager where
  "manager1 = \<lparr>active_sandboxes = [(''sbx-1'', Handle ''sbx-1'')],
               sandbox_metadata = [(''sbx-1'', row0)], sandboxes_table = [row0],
               stream = [], tasks = [], provider_calls = [PCreate ''Python3'']\<rparr>"

definition create_env0 :: create_env where
  "create_env0 = \<lparr>count_fault = None, sandbox_sync = (\<lambda>t. Returns ''sbx-1''),
                  measured_boot_time_ms = 120, uuid4 = ''u-1'', utcnow_activity = 10,
                  utcnow_expires = 10, utcnow_created = 10, insert_fault = None,
                  create_sink = (\<lambda>e. True)\<rparr>"

definition run0 :: provider_run where
  "run0 = \<lparr>callbacks = [(Stdout, ''line1''), (Stderr, ''warn''), (Stdout, ''line2'')],
           finish = Returns \<lparr>proc_exit_code = 0, proc_stdout = ''line1'' @ newline @ ''line2'',
                             proc_stderr = ''warn''\<rparr>\<rparr>"

definition exec_env0 :: exec_env where
  "exec_env0 = \<lparr>validate_code = (\<lambda>c. \<lparr>is_safe = (c \<noteq> ''import os''), reason = ''os access''\<rparr>),
                activity_fault = None, exec_utcnow = 50,
                process_start = (\<lambda>h c t. run0), measured_execution_time_ms = 7,
                exec_sink = (\<lambda>e. True)\<rparr>"

definition destroy_env0 :: destroy_env where
  "destroy_env0 = \<lparr>close_fault = None, update_fault = None, destroy_utcnow = 90,
                   destroy_sink = (\<lambda>e. True)\<rparr>"

definition streamer0 :: test_streamer where
  "streamer0 = \<lparr>supabase = True, session_id = ''test_session_1'', start_time = 0,
                category_counts = [(''unit'', 8), (''integration'', 2), (''functional'', 0),
                                   (''security'', 0), (''performance'', 0)],
                logs_table = [], console = []\<rparr>"

definition full_manager :: manager where
  "full_manager =
     manager1\<lparr>sandboxes_table :=
       [row0, row0\<lparr>e2b_sandbox_id := ''sbx-2''\<rparr>, row0\<lparr>e2b_sandbox_id := ''sbx-3''\<rparr>]\<rparr>"

definition create_env_insert_fails :: create_env where
  "create_env_insert_fails = create_env0\<lparr>insert_fault := Some ''connection reset''\<rparr>"

definition create_env_sink_fails :: create_env where
  "create_env_sink_fails = create_env0\<lparr>create_sink := (\<lambda>e. False)\<rparr>"

definition destroy_env_close_fails :: destroy_env where
  "destroy_env_close_fails = destroy_env0\<lparr>close_fault := Some ''timeout''\<rparr>"

definition exec_env_provider_fails :: exec_env where
  "exec_env_provider_fails =
     exec_env0\<lparr>process_start := (\<lambda>h c t. \<lparr>callbacks = [(Stdout, ''partial'')], finish = Raises ''timeout''\<rparr>)\<rparr>"

definition exec_env_sink_fails :: exec_env where
  "exec_env_sink_fails = exec_env0\<lparr>exec_sink := (\<lambda>e. False)\<rparr>"

definition event0 :: test_event where
  "event0 = \<lparr>event_type = ''passed'', test_id = ''test_error_handling'',
             test_name = ''test_with_streaming_error'', duration = Some (1 / 10),
             test_error = None, event_coverage = None, timestamp = 1000, category = ''unit''\<rparr>"

definition touched_manager1 :: manager where
  "touched_manager1 = manager1\<lparr>sandboxes_table := [row0\<lparr>last_activity_at := 50\<rparr>]\<rparr>"

definition create_result0 :: create_result where
  "create_result0 = \<lparr>res_sandbox_id = ''sbx-1'', res_internal_id = ''u-1'', res_boot_time_ms = 120,
                      res_template = ''Python3'', res_status = ''running'',
                      res_expires_at = 10 + one_hour\<rparr>"

definition create_env_clock_ticks :: create_env where
  "create_env_clock_ticks = create_env0\<lparr>utcnow_created := 11\<rparr>"

definition row2 :: sandbox_data where
  "row2 = row0\<lparr>e2b_sandbox_id := ''sbx-2''\<rparr>"

definition sweep_manager :: manager where
  "sweep_manager = manager1\<lparr>sandboxes_table := [row0, row2]\<rparr>"

definition sweep_envs :: "nat \<Rightarrow> destroy_env" where
  "sweep_envs i = (if i = 0 then destroy_env_close_fails else destroy_env0)"

definition failing_envs :: "nat \<Rightarrow> destroy_env" where
  "failing_envs i = destroy_env_close_fails"

definition sweep_now :: time where
  "sweep_now = 3600000011"

section \<open>Frame lemmas for event emission\<close>

lemma emit_frame:
  "active_sandboxes (emit k ev s) = active_sandboxes s"
  "sandbox_metadata (emit k ev s) = sandbox_metadata s"
  "sandboxes_table (emit k ev s) = sandboxes_table s"
  "tasks (emit k ev s) = tasks s"
  "provider_calls (emit k ev s) = provider_calls s"
  by (simp_all add: emit_def)

lemma stream_log_frame:
  "active_sandboxes (stream_log k a b c d s) = active_sandboxes s"
  "sandbox_metadata (stream_log k a b c d s) = sandbox_metadata s"
  "sandboxes_table (stream_log k a b c d s) = sandboxes_table s"
  "tasks (stream_log k a b c d s) = tasks s"
  "provider_calls (stream_log k a b c d s) = provider_calls s"
  by (simp_all add: stream_log_def emit_frame)

lemma stream_sandbox_event_frame:
  "active_sandboxes (stream_sandbox_event k a b c s) = active_sandboxes s"
  "sandbox_metadata (stream_sandbox_event k a b c s) = sandbox_metadata s"
  "sandboxes_table (stream_sandbox_event k a b c s) = sandboxes_table s"
  "tasks (stream_sandbox_event k a b c s) = tasks s"
  "provider_calls (stream_sandbox_event k a b c s) = provider_calls s"
  by (simp_all add: stream_sandbox_event_def emit_frame)

section \<open>The security gate comes before the provider\<close>

text \<open>
  Claim C1, as amended. When the validator rejects the code, \<^verbatim>\<open>execute_code\<close> raises and
  the trace of provider calls is unchanged. The error is the security-validation failure,
  carrying the validator's reason, when the sandbox id is tracked as active; the lookup of
  the id comes first, so for an id that is not tracked the error is the not-found error.
\<close>

theorem execute_code_rejected:
  assumes "\<not> is_safe (validate_code env code)"
  shows "(dict_in sandbox_id (active_sandboxes s) \<longrightarrow>
            fst (execute_code cfg env sandbox_id code tid stream_output s)
              = Inl (SecurityValidationFailed (reason (validate_code env code))))
       \<and> (\<not> dict_in sandbox_id (active_sandboxes s) \<longrightarrow>
            fst (execute_code cfg env sandbox_id code tid stream_output s)
              = Inl (SandboxNotFound sandbox_id))
       \<and> provider_calls (snd (execute_code cfg env sandbox_id code tid stream_output s))
           = provider_calls s"
  using assms
  by (auto simp: execute_code_def dict_in_def Let_def stream_log_frame split: option.splits)

theorem execute_code_rejected_witness:
  "\<not> is_safe (validate_code exec_env0 ''import os'')
   \<and> dict_in ''sbx-1'' (active_sandboxes manager1)
   \<and> fst (execute_code cfg0 exec_env0 ''sbx-1'' ''import os'' None True manager1)
       = Inl (SecurityValidationFailed ''os access'')
   \<and> provider_calls (snd (execute_code cfg0 exec_env0 ''sbx-1'' ''import os'' None True manager1))
       = [PCreate ''Python3'']"
  using execute_code_rejected [of exec_env0 "''import os''" "''sbx-1''" manager1 cfg0 None True]
  by (simp add: exec_env0_def manager1_def dict_in_def)

text \<open>
  The claim as first stated (the security error for every sandbox id) fails at an id that
  is not tracked: the code is rejected by the validator, and the error is the not-found one.
\<close>

theorem execute_code_rejected_unknown_id:
  "\<not> is_safe (validate_code exec_env0 ''import os'')
   \<and> fst (execute_code cfg0 exec_env0 ''ghost'' ''import os'' None True manager1)
       = Inl (SandboxNotFound ''ghost'')"
  by (simp add: execute_code_def exec_env0_def manager1_def)

section \<open>The quota check of create\_sandbox\<close>

text \<open>
  Claim C2. When the owner's running rows in the store already number at least
  \<open>max_sandboxes_per_user\<close>, \<^verbatim>\<open>create_sandbox\<close> fails and the whole state is unchanged: no
  provider call, no row, no tracked sandbox, no event. The error is the limit error (wrapped
  as a creation failure) whenever the count query itself returns.
\<close>

theorem create_sandbox_quota:
  assumes "int (length (filter (\<lambda>r. user_id r = uid \<and> status r = ''running'') (sandboxes_table s)))
             \<ge> max_sandboxes_per_user cfg"
  shows "snd (create_sandbox cfg env uid tid tmpl s) = s
       \<and> (\<exists>e. fst (create_sandbox cfg env uid tid tmpl s) = Inl (SandboxCreationFailed e))
       \<and> (count_fault env = None \<longrightarrow>
            fst (create_sandbox cfg env uid tid tmpl s)
              = Inl (SandboxCreationFailed (LimitReached (max_sandboxes_per_user cfg))))"
proof -
  have c: "filter (\<lambda>r. status r = ''running'') (filter (\<lambda>r. user_id r = uid) (sandboxes_table s))
        = filter (\<lambda>r. user_id r = uid \<and> status r = ''running'') (sandboxes_table s)"
    by (simp add: conj_commute)
  show ?thesis
    using assms
    by (cases "count_fault env")
       (simp_all add: create_sandbox_def create_body_def get_user_sandbox_count_def c)
qed

theorem create_sandbox_quota_witness:
  "int (length (filter (\<lambda>r. user_id r = ''alice'' \<and> status r = ''running'')
          (sandboxes_table full_manager))) \<ge> max_sandboxes_per_user cfg0
   \<and> create_sandbox cfg0 create_env0 ''alice'' None None full_manager
       = (Inl (SandboxCreationFailed (LimitReached 3)), full_manager)"
  using create_sandbox_quota [of cfg0 "''alice''" full_manager create_env0 None None]
  by (simp add: full_manager_def manager1_def row0_def cfg0_def create_env0_def prod_eq_iff)

section \<open>Failures inside create\_sandbox\<close>

text \<open>
  Claim C3, as amended. When the count query, the provider's create or the insert into the
  store fails, \<^verbatim>\<open>create_sandbox\<close> returns an error, neither dictionary and no row has
  changed, and no event has been emitted. The emission of the creation event is the last
  step and cannot fail the call: when the steps before it succeed the creation succeeds,
  the sandbox stays tracked, and the event is in the stream exactly when the sink accepted it.
\<close>

theorem create_sandbox_all_or_nothing:
  "((count_fault env \<noteq> None
       \<or> (\<exists>m. sandbox_sync env (template_to_use cfg tmpl) = Raises m)
       \<or> insert_fault env \<noteq> None) \<longrightarrow>
      (\<exists>e. fst (create_sandbox cfg env uid tid tmpl s) = Inl (SandboxCreationFailed e))
      \<and> active_sandboxes (snd (create_sandbox cfg env uid tid tmpl s)) = active_sandboxes s
      \<and> sandbox_metadata (snd (create_sandbox cfg env uid tid tmpl s)) = sandbox_metadata s
      \<and> sandboxes_table (snd (create_sandbox cfg env uid tid tmpl s)) = sandboxes_table s
      \<and> stream (snd (create_sandbox cfg env uid tid tmpl s)) = stream s)
   \<and> ((count_fault env = None
        \<and> int (length (filter (\<lambda>r. user_id r = uid \<and> status r = ''running'') (sandboxes_table s)))
            < max_sandboxes_per_user cfg
        \<and> sandbox_sync env (template_to_use cfg tmpl) = Returns hid
        \<and> insert_fault env = None) \<longrightarrow>
      (\<exists>r. fst (create_sandbox cfg env uid tid tmpl s) = Inr r)
      \<and> dict_in hid (active_sandboxes (snd (create_sandbox cfg env uid tid tmpl s)))
      \<and> dict_in hid (sandbox_metadata (snd (create_sandbox cfg env uid tid tmpl s)))
      \<and> stream (snd (create_sandbox cfg env uid tid tmpl s))
          = stream s @ (if create_sink env (created_event cfg env tmpl hid)
                        then [created_event cfg env tmpl hid] else []))"
proof -
  have c: "filter (\<lambda>r. status r = ''running'') (filter (\<lambda>r. user_id r = uid) (sandboxes_table s))
        = filter (\<lambda>r. user_id r = uid \<and> status r = ''running'') (sandboxes_table s)"
    by (simp add: conj_commute)
  show ?thesis
    by (auto simp: create_sandbox_def create_body_def get_user_sandbox_count_def c Let_def
          stream_sandbox_event_def emit_def dict_in_def update_conv' created_event_def
          split: option.splits outcome.splits)
qed

theorem create_sandbox_all_or_nothing_witness:
  "insert_fault create_env_insert_fails \<noteq> None
   \<and> create_sandbox cfg0 create_env_insert_fails ''bob'' None None manager1
       = (Inl (SandboxCreationFailed (StoreError ''connection reset'')),
          manager1\<lparr>provider_calls := [PCreate ''Python3'', PCreate ''Python3'']\<rparr>)
   \<and> count_fault create_env0 = None \<and> insert_fault create_env0 = None
   \<and> sandbox_sync create_env0 (template_to_use cfg0 None) = Returns ''sbx-1''
   \<and> dict_in ''sbx-1'' (active_sandboxes (snd (create_sandbox cfg0 create_env0 ''bob'' None None empty_manager)))
   \<and> stream (snd (create_sandbox cfg0 create_env0 ''bob'' None None empty_manager))
       = [created_event cfg0 create_env0 None ''sbx-1'']"
  using create_sandbox_all_or_nothing [of create_env_insert_fails cfg0 None "''bob''" None manager1 "''sbx-1''"]
        create_sandbox_all_or_nothing [of create_env0 cfg0 None "''bob''" None empty_manager "''sbx-1''"]
  by (simp add: create_sandbox_def create_body_def get_user_sandbox_count_def Let_def
        create_env_insert_fails_def create_env0_def cfg0_def manager1_def row0_def
        empty_manager_def template_to_use_def dict_in_def build_sandbox_data_def
        stream_sandbox_event_def emit_def created_event_def)

text \<open>
  The claim as first stated fails where the emission fails: the sink refuses the creation
  event, the caller receives the result and no error, and the record stays tracked.
\<close>

theorem create_sandbox_emission_failure_keeps_record:
  "\<not> create_sink create_env_sink_fails (created_event cfg0 create_env_sink_fails None ''sbx-1'')
   \<and> fst (create_sandbox cfg0 create_env_sink_fails ''bob'' None None empty_manager)
       = Inr \<lparr>res_sandbox_id = ''sbx-1'', res_internal_id = ''u-1'', res_boot_time_ms = 120,
              res_template = ''Python3'', res_status = ''running'',
              res_expires_at = 10 + one_hour\<rparr>
   \<and> dict_in ''sbx-1'' (active_sandboxes (snd (create_sandbox cfg0 create_env_sink_fails ''bob'' None None empty_manager)))
   \<and> stream (snd (create_sandbox cfg0 create_env_sink_fails ''bob'' None None empty_manager)) = []"
  by (simp add: create_sandbox_def create_body_def get_user_sandbox_count_def Let_def
        create_env_sink_fails_def create_env0_def cfg0_def
        empty_manager_def template_to_use_def dict_in_def build_sandbox_data_def
        stream_sandbox_event_def emit_def created_event_def)

section \<open>destroy\_sandbox, once and again\<close>

lemma dict_in_delete: "dict_in k (AList.delete k d) = False"
  by (simp add: dict_in_def delete_conv')

lemma destroy_untracked:
  assumes "\<not> dict_in sid (active_sandboxes s)"
  shows "provider_calls (snd (destroy_sandbox env sid s)) = provider_calls s"
    and "active_sandboxes (snd (destroy_sandbox env sid s)) = active_sandboxes s"
    and "fst (destroy_sandbox env sid s) = (update_fault env = None)"
  using assms
  by (auto simp: destroy_sandbox_def destroy_body_def Let_def stream_sandbox_event_frame
        split: option.splits)

lemma destroy_tracked:
  assumes "dict_in sid (active_sandboxes s)" "close_fault env = None"
  shows "provider_calls (snd (destroy_sandbox env sid s)) = provider_calls s @ [PClose sid]"
    and "\<not> dict_in sid (active_sandboxes (snd (destroy_sandbox env sid s)))"
    and "fst (destroy_sandbox env sid s) = (update_fault env = None)"
  using assms
  by (auto simp: destroy_sandbox_def destroy_body_def Let_def stream_sandbox_event_frame
        dict_in_delete split: option.splits)

lemma destroy_repeatedly_untracked:
  "\<not> dict_in sid (active_sandboxes s) \<Longrightarrow>
     provider_calls (snd (destroy_repeatedly envs sid s)) = provider_calls s
     \<and> fst (destroy_repeatedly envs sid s) = map (\<lambda>e. update_fault e = None) envs"
proof (induction envs arbitrary: s)
  case Nil
  then show ?case by simp
next
  case (Cons env envs)
  obtain b s' where d: "destroy_sandbox env sid s = (b, s')" by (cases "destroy_sandbox env sid s")
  from destroy_untracked [OF Cons.prems, of env] d
  have s': "provider_calls s' = provider_calls s" "active_sandboxes s' = active_sandboxes s"
    "b = (update_fault env = None)" by simp_all
  with Cons.prems have "\<not> dict_in sid (active_sandboxes s')" by simp
  from Cons.IH [OF this] d s' show ?case
    by (auto split: prod.splits)
qed

text \<open>
  Claim C4, as amended. \<^verbatim>\<open>destroy_sandbox\<close> catches every exception and returns a
  boolean: its result type has no error. On a sandbox that is tracked as active and whose
  \<^verbatim>\<open>close\<close> returns, the first call closes the handle and removes the sandbox from the
  active dictionary, and over that call and any number of further calls \<^verbatim>\<open>close\<close> is
  invoked exactly once. On an id that is not tracked no provider call is made at all. Every
  call, the first or a repeated one, on a tracked or an untracked id, returns \<^verbatim>\<open>True\<close>
  exactly when its update of the store returns.
\<close>

theorem destroy_sandbox_idempotent:
  "((dict_in sid (active_sandboxes s) \<and> close_fault env = None) \<longrightarrow>
       close_count sid (snd (destroy_repeatedly (env # envs) sid s)) = close_count sid s + 1
     \<and> \<not> dict_in sid (active_sandboxes (snd (destroy_sandbox env sid s)))
     \<and> fst (destroy_repeatedly (env # envs) sid s) = map (\<lambda>e. update_fault e = None) (env # envs))
   \<and> (\<not> dict_in sid (active_sandboxes s) \<longrightarrow>
       close_count sid (snd (destroy_repeatedly envs sid s)) = close_count sid s
     \<and> provider_calls (snd (destroy_repeatedly envs sid s)) = provider_calls s
     \<and> fst (destroy_repeatedly envs sid s) = map (\<lambda>e. update_fault e = None) envs)"
proof (intro conjI impI)
  assume a: "dict_in sid (active_sandboxes s) \<and> close_fault env = None"
  obtain b s' where d: "destroy_sandbox env sid s = (b, s')" by (cases "destroy_sandbox env sid s")
  from a destroy_tracked [of sid s env] d
  have s': "provider_calls s' = provider_calls s @ [PClose sid]"
    "\<not> dict_in sid (active_sandboxes s')" "b = (update_fault env = None)" by simp_all
  from destroy_repeatedly_untracked [OF s'(2), of envs]
  have r: "provider_calls (snd (destroy_repeatedly envs sid s')) = provider_calls s'"
    "fst (destroy_repeatedly envs sid s') = map (\<lambda>e. update_fault e = None) envs" by simp_all
  show "close_count sid (snd (destroy_repeatedly (env # envs) sid s)) = close_count sid s + 1"
    using d s' r by (auto simp: close_count_def split: prod.splits)
  show "\<not> dict_in sid (active_sandboxes (snd (destroy_sandbox env sid s)))"
    using d s' by simp
  show "fst (destroy_repeatedly (env # envs) sid s) = map (\<lambda>e. update_fault e = None) (env # envs)"
    using d s' r by (auto split: prod.splits)
next
  assume a: "\<not> dict_in sid (active_sandboxes s)"
  from destroy_repeatedly_untracked [OF a, of envs]
  show "close_count sid (snd (destroy_repeatedly envs sid s)) = close_count sid s"
    "provider_calls (snd (destroy_repeatedly envs sid s)) = provider_calls s"
    "fst (destroy_repeatedly envs sid s) = map (\<lambda>e. update_fault e = None) envs"
    by (simp_all add: close_count_def)
qed

theorem destroy_sandbox_idempotent_witness:
  "dict_in ''sbx-1'' (active_sandboxes manager1) \<and> close_fault destroy_env0 = None
   \<and> close_count ''sbx-1'' manager1 = 0
   \<and> close_count ''sbx-1'' (snd (destroy_repeatedly [destroy_env0, destroy_env0, destroy_env0] ''sbx-1'' manager1)) = 1
   \<and> \<not> dict_in ''ghost'' (active_sandboxes manager1)
   \<and> provider_calls (snd (destroy_repeatedly [destroy_env0, destroy_env0] ''ghost'' manager1))
       = provider_calls manager1"
  using destroy_sandbox_idempotent [of "''sbx-1''" manager1 destroy_env0 "[destroy_env0, destroy_env0]"]
        destroy_sandbox_idempotent [of "''ghost''" manager1 destroy_env0 "[destroy_env0, destroy_env0]"]
  by (simp add: manager1_def dict_in_def destroy_env0_def close_count_def)

text \<open>
  The claim as first stated fails: a repeated call, and a call on an id that was never
  created, return \<^verbatim>\<open>True\<close>, not \<^verbatim>\<open>False\<close>; and when the first \<^verbatim>\<open>close\<close> raises, the
  sandbox stays tracked and the next call invokes \<^verbatim>\<open>close\<close> a second time.
\<close>

theorem destroy_sandbox_repeated_returns_true:
  "fst (destroy_repeatedly [destroy_env0, destroy_env0] ''sbx-1'' manager1) = [True, True]
   \<and> \<not> dict_in ''ghost'' (active_sandboxes manager1)
   \<and> fst (destroy_sandbox destroy_env0 ''ghost'' manager1) = True
   \<and> fst (destroy_repeatedly [destroy_env_close_fails, destroy_env0] ''sbx-1'' manager1) = [False, True]
   \<and> close_count ''sbx-1'' (snd (destroy_repeatedly [destroy_env_close_fails, destroy_env0] ''sbx-1'' manager1)) = 2"
  by (simp add: destroy_sandbox_def destroy_body_def Let_def manager1_def dict_in_def
        destroy_env0_def stream_sandbox_event_def emit_def row0_def stop_rows_def
        destroy_env_close_fails_def close_count_def)

section \<open>The streaming path: buffers and scheduled events\<close>

lemma run_callbacks_capture:
  "stdout_lines (run_callbacks sid tid cbs c) = stdout_lines c @ delivered Stdout cbs
   \<and> stderr_lines (run_callbacks sid tid cbs c) = stderr_lines c @ delivered Stderr cbs
   \<and> mgr (run_callbacks sid tid cbs c)
       = (mgr c)\<lparr>tasks := tasks (mgr c) @ map (line_event sid tid) cbs\<rparr>"
proof (induction sid tid cbs c rule: run_callbacks.induct)
  case (1 sid tid c)
  then show ?case by (simp add: delivered_def)
next
  case (2 sid tid line cbs c)
  then show ?case by (simp add: delivered_def on_stdout_def)
next
  case (3 sid tid line cbs c)
  then show ?case by (simp add: delivered_def on_stderr_def)
qed

lemma streamed_lines_events:
  "streamed_lines ''stdout'' (map (line_event sid tid) cbs) = delivered Stdout cbs"
  "streamed_lines ''stderr'' (map (line_event sid tid) cbs) = delivered Stderr cbs"
proof -
  show "streamed_lines ''stdout'' (map (line_event sid tid) cbs) = delivered Stdout cbs"
  proof (induction cbs)
    case Nil
    then show ?case by (simp add: streamed_lines_def delivered_def)
  next
    case (Cons p cbs)
    obtain ch l where p: "p = (ch, l)" by (cases p)
    with Cons show ?case by (cases ch) (simp_all add: streamed_lines_def delivered_def)
  qed
  show "streamed_lines ''stderr'' (map (line_event sid tid) cbs) = delivered Stderr cbs"
  proof (induction cbs)
    case Nil
    then show ?case by (simp add: streamed_lines_def delivered_def)
  next
    case (Cons p cbs)
    obtain ch l where p: "p = (ch, l)" by (cases p)
    with Cons show ?case by (cases ch) (simp_all add: streamed_lines_def delivered_def)
  qed
qed

lemma execute_with_streaming_eq:
  "execute_with_streaming cfg env (Handle hid) sid code tid s =
     (let run = process_start env hid (python_cmd code) (max_execution_time cfg);
          s' = s\<lparr>tasks := tasks s @ map (line_event sid tid) (callbacks run),
                 provider_calls := provider_calls s @ [PStart hid (python_cmd code)]\<rparr>
      in (case finish run of
            Raises m \<Rightarrow> (Inl (ProviderError m), s')
          | Returns ex \<Rightarrow>
              (Inr \<lparr>exit_code = proc_exit_code ex,
                    stdout = join newline (delivered Stdout (callbacks run)),
                    stderr = join newline (delivered Stderr (callbacks run)),
                    execution_time_ms = 0\<rparr>, s')))"
  by (simp add: execute_with_streaming_def Let_def run_callbacks_capture split: outcome.splits)

text \<open>
  Claim C10. When the streaming path returns a result, its \<open>stdout\<close> is the newline-join
  of the lines the provider delivered to the stdout callback, in the order of delivery, and
  likewise for \<open>stderr\<close>; and these are the very lines carried, in the same order, by the
  \<^verbatim>\<open>stdout\<close> (respectively \<^verbatim>\<open>stderr\<close>) events the callbacks scheduled during the call.
\<close>

theorem streaming_result_agrees:
  assumes "fst (execute_with_streaming cfg env (Handle hid) sid code tid s) = Inr r"
  shows "stdout r = join newline (delivered Stdout
            (callbacks (process_start env hid (python_cmd code) (max_execution_time cfg))))
       \<and> stderr r = join newline (delivered Stderr
            (callbacks (process_start env hid (python_cmd code) (max_execution_time cfg))))
       \<and> stdout r = join newline (streamed_lines ''stdout''
            (drop (length (tasks s))
               (tasks (snd (execute_with_streaming cfg env (Handle hid) sid code tid s)))))
       \<and> stderr r = join newline (streamed_lines ''stderr''
            (drop (length (tasks s))
               (tasks (snd (execute_with_streaming cfg env (Handle hid) sid code tid s)))))"
  using assms
  by (auto simp: execute_with_streaming_eq Let_def streamed_lines_events split: outcome.splits)

theorem streaming_result_agrees_witness:
  "fst (execute_with_streaming cfg0 exec_env0 (Handle ''sbx-1'') ''sbx-1'' ''print(1)'' None manager1)
     = Inr \<lparr>exit_code = 0, stdout = ''line1'' @ newline @ ''line2'', stderr = ''warn'',
            execution_time_ms = 0\<rparr>
   \<and> delivered Stdout (callbacks (process_start exec_env0 ''sbx-1'' (python_cmd ''print(1)'')
         (max_execution_time cfg0))) = [''line1'', ''line2'']
   \<and> streamed_lines ''stdout'' (drop (length (tasks manager1))
         (tasks (snd (execute_with_streaming cfg0 exec_env0 (Handle ''sbx-1'') ''sbx-1'' ''print(1)'' None manager1))))
       = [''line1'', ''line2'']"
  using streaming_result_agrees [of cfg0 exec_env0 "''sbx-1''" "''sbx-1''" "''print(1)''" None manager1
      "\<lparr>exit_code = 0, stdout = ''line1'' @ newline @ ''line2'', stderr = ''warn'', execution_time_ms = 0\<rparr>"]
  by (simp add: execute_with_streaming_def Let_def exec_env0_def run0_def manager1_def
        on_stdout_def on_stderr_def delivered_def streamed_lines_def)

section \<open>What execute\_code leaves unchanged, and what it returns\<close>

lemma execute_buffered_eq:
  "execute_buffered cfg env (Handle hid) code s =
     (let run = process_start env hid (python_cmd code) (max_execution_time cfg);
          s' = s\<lparr>provider_calls := provider_calls s @ [PStart hid (python_cmd code)]\<rparr>
      in (case finish run of
            Raises m \<Rightarrow> (Inl (ProviderError m), s')
          | Returns ex \<Rightarrow>
              (Inr \<lparr>exit_code = proc_exit_code ex, stdout = proc_stdout ex,
                    stderr = proc_stderr ex, execution_time_ms = 0\<rparr>, s')))"
  by (simp add: execute_buffered_def Let_def)

lemma mask_touch_rows: "map mask_activity (touch_rows sid now rows) = map mask_activity rows"
  by (induction rows) (simp_all add: touch_rows_def mask_activity_def)

lemma execute_code_frame:
  "active_sandboxes (snd (execute_code cfg env sid code tid so s)) = active_sandboxes s
   \<and> sandbox_metadata (snd (execute_code cfg env sid code tid so s)) = sandbox_metadata s
   \<and> map mask_activity (sandboxes_table (snd (execute_code cfg env sid code tid so s)))
       = map mask_activity (sandboxes_table s)"
proof (cases "map_of (active_sandboxes s) sid")
  case None
  then show ?thesis by (simp add: execute_code_def)
next
  case (Some h)
  obtain hid where h: "h = Handle hid" by (cases h)
  show ?thesis
    using Some h
    by (auto simp: execute_code_def execute_body_def update_sandbox_activity_def Let_def
          stream_log_frame execute_with_streaming_eq execute_buffered_eq mask_touch_rows
          split: option.splits outcome.splits)
qed

lemma execute_code_sink_free:
  "fst (execute_code cfg (env\<lparr>exec_sink := k\<rparr>) sid code tid so s)
     = fst (execute_code cfg env sid code tid so s)"
proof (cases "map_of (active_sandboxes s) sid")
  case None
  then show ?thesis by (simp add: execute_code_def)
next
  case (Some h)
  obtain hid where h: "h = Handle hid" by (cases h)
  show ?thesis
    using Some h
    by (auto simp: execute_code_def execute_body_def update_sandbox_activity_def Let_def
          execute_with_streaming_eq execute_buffered_eq
          split: option.splits outcome.splits)
qed

lemma execute_code_returns:
  assumes "map_of (active_sandboxes s) sid = Some (Handle hid)"
    and "is_safe (validate_code env code)"
    and "activity_fault env = None"
    and "finish (process_start env hid (python_cmd code) (max_execution_time cfg)) = Returns ex"
  shows "fst (execute_code cfg env sid code tid so s) =
     Inr \<lparr>exit_code = proc_exit_code ex,
           stdout = (if so then join newline (delivered Stdout
                       (callbacks (process_start env hid (python_cmd code) (max_execution_time cfg))))
                     else proc_stdout ex),
           stderr = (if so then join newline (delivered Stderr
                       (callbacks (process_start env hid (python_cmd code) (max_execution_time cfg))))
                     else proc_stderr ex),
           execution_time_ms = measured_execution_time_ms env\<rparr>"
  using assms
  by (simp add: execute_code_def execute_body_def update_sandbox_activity_def Let_def
        execute_with_streaming_eq execute_buffered_eq)

lemma execute_code_provider_raises:
  assumes "map_of (active_sandboxes s) sid = Some (Handle hid)"
    and "is_safe (validate_code env code)"
    and "activity_fault env = None"
    and "finish (process_start env hid (python_cmd code) (max_execution_time cfg)) = Raises m"
  shows "fst (execute_code cfg env sid code tid so s) = Inl (CodeExecutionFailed (ProviderError m))"
  using assms
  by (simp add: execute_code_def execute_body_def update_sandbox_activity_def Let_def
        execute_with_streaming_eq execute_buffered_eq)

text \<open>
  Claim C5, as amended. The manager keeps no usage counters: of the state that describes a
  sandbox, a call of \<^verbatim>\<open>execute_code\<close> leaves both dictionaries as they were and changes
  nothing of any row of the store but its activity timestamp. When the provider call raises,
  the caller receives the execution failure carrying the provider's message.
\<close>

theorem execute_code_keeps_no_counters:
  "active_sandboxes (snd (execute_code cfg env sid code tid so s)) = active_sandboxes s
   \<and> sandbox_metadata (snd (execute_code cfg env sid code tid so s)) = sandbox_metadata s
   \<and> map mask_activity (sandboxes_table (snd (execute_code cfg env sid code tid so s)))
       = map mask_activity (sandboxes_table s)
   \<and> ((map_of (active_sandboxes s) sid = Some (Handle hid)
        \<and> is_safe (validate_code env code)
        \<and> activity_fault env = None
        \<and> finish (process_start env hid (python_cmd code) (max_execution_time cfg)) = Raises m) \<longrightarrow>
       fst (execute_code cfg env sid code tid so s) = Inl (CodeExecutionFailed (ProviderError m)))"
  using execute_code_frame [of cfg env sid code tid so s]
        execute_code_provider_raises [of s sid hid env code cfg m tid so]
  by simp

theorem execute_code_keeps_no_counters_witness:
  "map_of (active_sandboxes manager1) ''sbx-1'' = Some (Handle ''sbx-1'')
   \<and> is_safe (validate_code exec_env_provider_fails ''print(1)'')
   \<and> activity_fault exec_env_provider_fails = None
   \<and> finish (process_start exec_env_provider_fails ''sbx-1'' (python_cmd ''print(1)'')
        (max_execution_time cfg0)) = Raises ''timeout''
   \<and> fst (execute_code cfg0 exec_env_provider_fails ''sbx-1'' ''print(1)'' None True manager1)
       = Inl (CodeExecutionFailed (ProviderError ''timeout''))
   \<and> sandbox_metadata (snd (execute_code cfg0 exec_env_provider_fails ''sbx-1'' ''print(1)'' None True manager1))
       = [(''sbx-1'', row0)]"
  using execute_code_keeps_no_counters [of cfg0 exec_env_provider_fails "''sbx-1''" "''print(1)''"
          None True manager1 "''sbx-1''" "''timeout''"]
  by (simp add: manager1_def exec_env_provider_fails_def exec_env0_def)

text \<open>
  The claim as first stated fails: the provider call returns, and the whole state after the
  call differs from the state before it in the activity timestamp of the row and in the
  provider trace only; nothing has been counted.
\<close>

theorem execute_code_leaves_record_unchanged:
  "execute_code cfg0 exec_env0 ''sbx-1'' ''print(1)'' None False manager1
     = (Inr \<lparr>exit_code = 0, stdout = ''line1'' @ newline @ ''line2'', stderr = ''warn'',
             execution_time_ms = 7\<rparr>,
        manager1\<lparr>sandboxes_table := [row0\<lparr>last_activity_at := 50\<rparr>],
                 provider_calls := [PCreate ''Python3'', PStart ''sbx-1'' (python_cmd ''print(1)'')]\<rparr>)"
  by (simp add: execute_code_def execute_body_def update_sandbox_activity_def Let_def
        execute_buffered_def exec_env0_def manager1_def run0_def touch_rows_def row0_def)

section \<open>Emission never fails the caller\<close>

text \<open>
  Claim C6. \<^verbatim>\<open>stream_event\<close> of the test streamer always returns normally; when the
  insert into the sink raises, the exception is caught, a line is printed, and nothing else
  changes. For the manager, what \<^verbatim>\<open>execute_code\<close> returns (result or error) does not
  depend on what the sink does, and with a sink that refuses every event an execution whose
  provider call returns still returns its result.
\<close>

theorem emission_never_fails_caller:
  "(\<exists>st'. stream_event fault ev st = Inr st')
   \<and> ((supabase st \<and> fault = Some m) \<longrightarrow>
        stream_event fault ev st = Inr (st\<lparr>console := console st @ [FailedToStream m]\<rparr>))
   \<and> fst (execute_code cfg (env\<lparr>exec_sink := k\<rparr>) sid code tid so s)
       = fst (execute_code cfg env sid code tid so s)
   \<and> ((map_of (active_sandboxes s) sid = Some (Handle hid)
        \<and> is_safe (validate_code env code)
        \<and> activity_fault env = None
        \<and> finish (process_start env hid (python_cmd code) (max_execution_time cfg)) = Returns ex) \<longrightarrow>
       (\<exists>r. fst (execute_code cfg (env\<lparr>exec_sink := (\<lambda>e. False)\<rparr>) sid code tid so s) = Inr r
            \<and> exit_code r = proc_exit_code ex
            \<and> execution_time_ms r = measured_execution_time_ms env))"
proof (intro conjI impI)
  show "\<exists>st'. stream_event fault ev st = Inr st'"
    by (simp add: stream_event_def sink_insert_def split: option.splits)
  show "stream_event fault ev st = Inr (st\<lparr>console := console st @ [FailedToStream m]\<rparr>)"
    if "supabase st \<and> fault = Some m"
    using that by (simp add: stream_event_def sink_insert_def)
  show "fst (execute_code cfg (env\<lparr>exec_sink := k\<rparr>) sid code tid so s)
       = fst (execute_code cfg env sid code tid so s)"
    by (rule execute_code_sink_free)
  show "\<exists>r. fst (execute_code cfg (env\<lparr>exec_sink := (\<lambda>e. False)\<rparr>) sid code tid so s) = Inr r
            \<and> exit_code r = proc_exit_code ex
            \<and> execution_time_ms r = measured_execution_time_ms env"
    if a: "map_of (active_sandboxes s) sid = Some (Handle hid)
        \<and> is_safe (validate_code env code)
        \<and> activity_fault env = None
        \<and> finish (process_start env hid (python_cmd code) (max_execution_time cfg)) = Returns ex"
    using execute_code_returns [of s sid hid env code cfg ex tid so] a
    by (simp add: execute_code_sink_free)
qed

theorem emission_never_fails_caller_witness:
  "supabase streamer0
   \<and> stream_event (Some ''Network error'') event0 streamer0
       = Inr (streamer0\<lparr>console := console streamer0 @ [FailedToStream ''Network error'']\<rparr>)
   \<and> map_of (active_sandboxes manager1) ''sbx-1'' = Some (Handle ''sbx-1'')
   \<and> is_safe (validate_code exec_env0 ''print(1)'')
   \<and> activity_fault exec_env0 = None
   \<and> finish (process_start exec_env0 ''sbx-1'' (python_cmd ''print(1)'') (max_execution_time cfg0))
       = Returns \<lparr>proc_exit_code = 0, proc_stdout = ''line1'' @ newline @ ''line2'',
                  proc_stderr = ''warn''\<rparr>
   \<and> (\<exists>r. fst (execute_code cfg0 exec_env_sink_fails ''sbx-1'' ''print(1)'' None True manager1) = Inr r
          \<and> exit_code r = 0 \<and> execution_time_ms r = 7)"
proof -
  have a: "supabase streamer0 \<and> Some ''Network error'' = Some ''Network error''"
    by (simp add: streamer0_def)
  have b: "map_of (active_sandboxes manager1) ''sbx-1'' = Some (Handle ''sbx-1'')
     \<and> is_safe (validate_code exec_env0 ''print(1)'')
     \<and> activity_fault exec_env0 = None
     \<and> finish (process_start exec_env0 ''sbx-1'' (python_cmd ''print(1)'') (max_execution_time cfg0))
         = Returns \<lparr>proc_exit_code = 0, proc_stdout = ''line1'' @ newline @ ''line2'',
                    proc_stderr = ''warn''\<rparr>"
    by (simp add: manager1_def exec_env0_def run0_def)
  note t = emission_never_fails_caller [where fault = "Some ''Network error''" and ev = event0
          and st = streamer0 and m = "''Network error''" and cfg = cfg0 and env = exec_env0
          and k = "\<lambda>e. False" and sid = "''sbx-1''" and code = "''print(1)''" and tid = None
          and so = True and s = manager1 and hid = "''sbx-1''"
          and ex = "\<lparr>proc_exit_code = 0, proc_stdout = ''line1'' @ newline @ ''line2'',
                     proc_stderr = ''warn''\<rparr>"]
  from t a have c1: "stream_event (Some ''Network error'') event0 streamer0
       = Inr (streamer0\<lparr>console := console streamer0 @ [FailedToStream ''Network error'']\<rparr>)"
    by blast
  from t b have c2: "\<exists>r. fst (execute_code cfg0 (exec_env0\<lparr>exec_sink := (\<lambda>e. False)\<rparr>)
         ''sbx-1'' ''print(1)'' None True manager1) = Inr r
       \<and> exit_code r = proc_exit_code \<lparr>proc_exit_code = 0,
            proc_stdout = ''line1'' @ newline @ ''line2'', proc_stderr = ''warn''\<rparr>
       \<and> execution_time_ms r = measured_execution_time_ms exec_env0"
    by blast
  have m: "measured_execution_time_ms exec_env0 = 7" by (simp add: exec_env0_def)
  from c2 m have c3: "\<exists>r. fst (execute_code cfg0 exec_env_sink_fails ''sbx-1'' ''print(1)'' None True manager1) = Inr r
          \<and> exit_code r = 0 \<and> execution_time_ms r = 7"
    by (simp add: exec_env_sink_fails_def)
  from a b c1 c3 show ?thesis by blast
qed

section \<open>The activity refresh and the expiry\<close>

lemma touch_rows_sets:
  "r \<in> set (touch_rows sid now rows) \<Longrightarrow> e2b_sandbox_id r = sid \<Longrightarrow> last_activity_at r = now"
proof (induction rows)
  case Nil
  then show ?case by (simp add: touch_rows_def)
next
  case (Cons a rows)
  from Cons.prems(1)
  have "r = (if e2b_sandbox_id a = sid then a\<lparr>last_activity_at := now\<rparr> else a)
        \<or> r \<in> set (touch_rows sid now rows)"
    by (simp add: touch_rows_def)
  then show ?case
  proof
    assume "r = (if e2b_sandbox_id a = sid then a\<lparr>last_activity_at := now\<rparr> else a)"
    with Cons.prems(2) show ?thesis by (cases "e2b_sandbox_id a = sid") simp_all
  next
    assume "r \<in> set (touch_rows sid now rows)"
    from Cons.IH [OF this Cons.prems(2)] show ?thesis .
  qed
qed

lemma expires_touch_rows: "map expires_at (touch_rows sid now rows) = map expires_at rows"
  by (induction rows) (simp_all add: touch_rows_def)

lemma mask_activity_expires:
  assumes "map mask_activity rows' = map mask_activity rows"
  shows "map expires_at rows' = map expires_at rows"
proof -
  have e: "\<And>xs. map expires_at xs = map expires_at (map mask_activity xs)"
    by (simp add: mask_activity_def)
  show ?thesis
    using assms e [of rows'] e [of rows] by simp
qed

lemma create_body_row:
  assumes "fst (create_body cfg cenv uid tid tmpl s) = Inr res"
  shows "\<exists>d. sandboxes_table (snd (create_body cfg cenv uid tid tmpl s)) = sandboxes_table s @ [d]
            \<and> expires_at d = utcnow_expires cenv + one_hour
            \<and> created_at d = utcnow_created cenv
            \<and> res_expires_at res = expires_at d"
proof (cases "get_user_sandbox_count (count_fault cenv) uid s")
  case (Inl e)
  with assms show ?thesis by (simp add: create_body_def)
next
  case (Inr n)
  show ?thesis
  proof (cases "int n \<ge> max_sandboxes_per_user cfg")
    case True
    with Inr assms show ?thesis by (simp add: create_body_def)
  next
    case False
    show ?thesis
    proof (cases "sandbox_sync cenv (template_to_use cfg tmpl)")
      case (Raises m)
      with Inr False assms show ?thesis by (simp add: create_body_def Let_def)
    next
      case (Returns hid)
      show ?thesis
      proof (cases "insert_fault cenv")
        case (Some m)
        with Inr False Returns assms show ?thesis by (simp add: create_body_def Let_def)
      next
        case None
        with Inr False Returns assms show ?thesis
          by (auto simp: create_body_def Let_def build_sandbox_data_def stream_sandbox_event_frame)
      qed
    qed
  qed
qed

lemma create_sandbox_row:
  assumes "fst (create_sandbox cfg cenv uid tid tmpl s) = Inr res"
  shows "\<exists>d. sandboxes_table (snd (create_sandbox cfg cenv uid tid tmpl s)) = sandboxes_table s @ [d]
            \<and> expires_at d = utcnow_expires cenv + one_hour
            \<and> created_at d = utcnow_created cenv
            \<and> res_expires_at res = expires_at d"
proof (cases "create_body cfg cenv uid tid tmpl s")
  case (Pair a s')
  show ?thesis
  proof (cases a)
    case (Inl e)
    with Pair assms show ?thesis by (simp add: create_sandbox_def)
  next
    case (Inr r)
    with Pair assms have "r = res" by (simp add: create_sandbox_def)
    with Pair Inr create_body_row [of cfg cenv uid tid tmpl s res]
    show ?thesis by (simp add: create_sandbox_def)
  qed
qed


text \<open>
  Claim C9, as amended. The refresh of the activity timestamp changes, of the whole state,
  only the field \<open>last_activity_at\<close> of the rows of that sandbox; \<^verbatim>\<open>execute_code\<close>, which
  performs it, leaves the \<open>expires_at\<close> of every row as it was. The value is fixed at
  creation as the clock reading taken for that field plus one hour. \<open>created_at\<close> is a
  reading of its own, taken next; the expiry is \<open>created_at\<close> plus one hour when the two
  readings coincide.
\<close>

theorem activity_refresh_frame:
  "(update_sandbox_activity fault now sid s = Inr s' \<longrightarrow>
       map mask_activity (sandboxes_table s') = map mask_activity (sandboxes_table s)
     \<and> map expires_at (sandboxes_table s') = map expires_at (sandboxes_table s)
     \<and> s'\<lparr>sandboxes_table := sandboxes_table s\<rparr> = s
     \<and> (\<forall>r \<in> set (sandboxes_table s'). e2b_sandbox_id r = sid \<longrightarrow> last_activity_at r = now))
   \<and> map expires_at (sandboxes_table (snd (execute_code cfg env sid code tid so s)))
       = map expires_at (sandboxes_table s)
   \<and> map mask_activity (sandboxes_table (snd (execute_code cfg env sid code tid so s)))
       = map mask_activity (sandboxes_table s)
   \<and> (fst (create_sandbox cfg cenv uid ctid tmpl s) = Inr res \<longrightarrow>
        (\<exists>d. sandboxes_table (snd (create_sandbox cfg cenv uid ctid tmpl s)) = sandboxes_table s @ [d]
             \<and> expires_at d = utcnow_expires cenv + one_hour
             \<and> created_at d = utcnow_created cenv
             \<and> res_expires_at res = expires_at d
             \<and> (utcnow_expires cenv = utcnow_created cenv \<longrightarrow>
                  expires_at d = created_at d + one_hour)))"
proof (intro conjI impI)
  assume u: "update_sandbox_activity fault now sid s = Inr s'"
  then have s': "s' = s\<lparr>sandboxes_table := touch_rows sid now (sandboxes_table s)\<rparr>"
    by (simp add: update_sandbox_activity_def split: option.splits)
  show "map mask_activity (sandboxes_table s') = map mask_activity (sandboxes_table s)"
    by (simp add: s' mask_touch_rows)
  show "map expires_at (sandboxes_table s') = map expires_at (sandboxes_table s)"
    by (simp add: s' expires_touch_rows)
  show "s'\<lparr>sandboxes_table := sandboxes_table s\<rparr> = s"
    by (simp add: s')
  have t: "sandboxes_table s' = touch_rows sid now (sandboxes_table s)"
    by (simp add: s')
  show "\<forall>r \<in> set (sandboxes_table s'). e2b_sandbox_id r = sid \<longrightarrow> last_activity_at r = now"
    unfolding t using touch_rows_sets [of _ sid now "sandboxes_table s"] by blast
next
  have m: "map mask_activity (sandboxes_table (snd (execute_code cfg env sid code tid so s)))
       = map mask_activity (sandboxes_table s)"
    using execute_code_frame [of cfg env sid code tid so s] by simp
  then show "map mask_activity (sandboxes_table (snd (execute_code cfg env sid code tid so s)))
       = map mask_activity (sandboxes_table s)" .
  from mask_activity_expires [OF m]
  show "map expires_at (sandboxes_table (snd (execute_code cfg env sid code tid so s)))
       = map expires_at (sandboxes_table s)" .
next
  assume c: "fst (create_sandbox cfg cenv uid ctid tmpl s) = Inr res"
  from create_sandbox_row [OF c]
  obtain d where d: "sandboxes_table (snd (create_sandbox cfg cenv uid ctid tmpl s)) = sandboxes_table s @ [d]"
    "expires_at d = utcnow_expires cenv + one_hour" "created_at d = utcnow_created cenv"
    "res_expires_at res = expires_at d" by blast
  then have "utcnow_expires cenv = utcnow_created cenv \<longrightarrow> expires_at d = created_at d + one_hour"
    by simp
  with d
  show "\<exists>d. sandboxes_table (snd (create_sandbox cfg cenv uid ctid tmpl s)) = sandboxes_table s @ [d]
             \<and> expires_at d = utcnow_expires cenv + one_hour
             \<and> created_at d = utcnow_created cenv
             \<and> res_expires_at res = expires_at d
             \<and> (utcnow_expires cenv = utcnow_created cenv \<longrightarrow>
                  expires_at d = created_at d + one_hour)"
    by blast
qed


theorem activity_refresh_frame_witness:
  "update_sandbox_activity None 50 ''sbx-1'' manager1 = Inr touched_manager1
   \<and> map expires_at (sandboxes_table touched_manager1) = map expires_at (sandboxes_table manager1)
   \<and> map last_activity_at (sandboxes_table touched_manager1) = [50]
   \<and> fst (create_sandbox cfg0 create_env0 ''bob'' None None manager1) = Inr create_result0
   \<and> utcnow_expires create_env0 = utcnow_created create_env0
   \<and> (\<exists>d. sandboxes_table (snd (create_sandbox cfg0 create_env0 ''bob'' None None manager1))
             = sandboxes_table manager1 @ [d]
          \<and> expires_at d = created_at d + one_hour)"
proof -
  have u: "update_sandbox_activity None 50 ''sbx-1'' manager1 = Inr touched_manager1"
    by (simp add: update_sandbox_activity_def touched_manager1_def manager1_def touch_rows_def
          row0_def)
  have c: "fst (create_sandbox cfg0 create_env0 ''bob'' None None manager1) = Inr create_result0"
    by (simp add: create_sandbox_def create_body_def get_user_sandbox_count_def Let_def
          create_env0_def cfg0_def manager1_def row0_def template_to_use_def
          build_sandbox_data_def stream_sandbox_event_def emit_def create_result0_def)
  have e: "utcnow_expires create_env0 = utcnow_created create_env0"
    by (simp add: create_env0_def)
  note t = activity_refresh_frame [where fault = None and now = 50 and sid = "''sbx-1''"
      and s = manager1 and s' = touched_manager1 and cfg = cfg0 and cenv = create_env0
      and uid = "''bob''" and ctid = None and tmpl = None and res = create_result0]
  from t u have a: "map expires_at (sandboxes_table touched_manager1)
      = map expires_at (sandboxes_table manager1)"
    by blast
  have l: "map last_activity_at (sandboxes_table touched_manager1) = [50]"
    by (simp add: touched_manager1_def)
  from t c e have b: "\<exists>d. sandboxes_table (snd (create_sandbox cfg0 create_env0 ''bob'' None None manager1))
             = sandboxes_table manager1 @ [d]
          \<and> expires_at d = created_at d + one_hour"
    by blast
  from u a l c e b show ?thesis by blast
qed

text \<open>
  The claim as first stated gives the value as \<open>created_at\<close> plus the time to live; with
  the clock advancing between the two readings of one creation it is not.
\<close>

theorem expires_at_not_created_at_plus_ttl:
  "sandboxes_table (snd (create_sandbox cfg0 create_env_clock_ticks ''bob'' None None empty_manager))
     = [build_sandbox_data cfg0 create_env_clock_ticks ''bob'' None ''Python3'' ''sbx-1'']
   \<and> expires_at (build_sandbox_data cfg0 create_env_clock_ticks ''bob'' None ''Python3'' ''sbx-1'')
       = 10 + one_hour
   \<and> created_at (build_sandbox_data cfg0 create_env_clock_ticks ''bob'' None ''Python3'' ''sbx-1'') = 11
   \<and> expires_at (build_sandbox_data cfg0 create_env_clock_ticks ''bob'' None ''Python3'' ''sbx-1'')
       \<noteq> created_at (build_sandbox_data cfg0 create_env_clock_ticks ''bob'' None ''Python3'' ''sbx-1'')
           + one_hour"
  by (simp add: create_sandbox_def create_body_def get_user_sandbox_count_def Let_def
        create_env_clock_ticks_def create_env0_def cfg0_def empty_manager_def template_to_use_def
        build_sandbox_data_def stream_sandbox_event_def emit_def)

section \<open>The coverage gate of the test-run streamer\<close>

lemma filter_category_lines:
  "filter is_verdict (map (\<lambda>(c, n). CategoryCount c n) xs) = []"
  by (induction xs) (simp_all add: case_prod_beta)

lemma end_session_console:
  "filter is_verdict (new_console st (end_session fault now passed failed skipped coverage st))
     = verdict_lines coverage"
  by (simp add: end_session_def new_console_def Let_def sink_insert_def verdict_lines_def
        filter_category_lines split: option.splits)

lemma end_session_logs:
  "concat (map summary_of (new_logs st (end_session fault now passed failed skipped coverage st)))
     = (if supabase st \<and> fault = None
        then [(if coverage \<ge> 80 then ''info'' else ''error'', coverage \<ge> 80, failed)]
        else [])"
  by (simp add: end_session_def new_logs_def Let_def sink_insert_def split: option.splits)

lemma pytest_sessionfinish_failures:
  "fst (pytest_sessionfinish fault now outcomes testsfailed st) = testsfailed"
  by (simp add: pytest_sessionfinish_def enforce_coverage_def)

text \<open>
  Claim C8. For a coverage below 80, whatever the numbers of passed, failed and skipped
  tests, \<^verbatim>\<open>end_session\<close> prints that the coverage requirement failed and that the build will
  fail, the session summary it logs has level \<^verbatim>\<open>error\<close> and \<^verbatim>\<open>coverage_met\<close> false, and
  the enforcement of \<^verbatim>\<open>pytest_sessionfinish\<close> adds a failure to the session. For a coverage
  of 80 or more it prints that the requirement is met, the summary has level \<^verbatim>\<open>info\<close> and
  \<^verbatim>\<open>coverage_met\<close> true, and no failure is added.
\<close>

theorem coverage_gate:
  "(coverage < 80 \<longrightarrow>
      filter is_verdict (new_console st (end_session fault now passed failed skipped coverage st))
        = [CoverageRequirementFailed coverage, BuildWillFail]
      \<and> concat (map summary_of (new_logs st (end_session fault now passed failed skipped coverage st)))
          = (if supabase st \<and> fault = None then [(''error'', False, failed)] else [])
      \<and> fst (enforce_coverage coverage testsfailed st') = testsfailed + 1)
   \<and> (coverage \<ge> 80 \<longrightarrow>
      filter is_verdict (new_console st (end_session fault now passed failed skipped coverage st))
        = [CoverageRequirementMet coverage]
      \<and> concat (map summary_of (new_logs st (end_session fault now passed failed skipped coverage st)))
          = (if supabase st \<and> fault = None then [(''info'', True, failed)] else [])
      \<and> fst (enforce_coverage coverage testsfailed st') = testsfailed)"
  using end_session_console [of st fault now passed failed skipped coverage]
        end_session_logs [of st fault now passed failed skipped coverage]
  by (simp add: verdict_lines_def enforce_coverage_def)

theorem coverage_gate_witness:
  "(75::real) < 80
   \<and> filter is_verdict (new_console streamer0 (end_session None 5 10 0 0 75 streamer0))
        = [CoverageRequirementFailed 75, BuildWillFail]
   \<and> concat (map summary_of (new_logs streamer0 (end_session None 5 10 0 0 75 streamer0)))
        = [(''error'', False, 0)]
   \<and> fst (enforce_coverage 75 0 streamer0) = 1
   \<and> (85::real) \<ge> 80
   \<and> filter is_verdict (new_console streamer0 (end_session None 5 8 0 2 85 streamer0))
        = [CoverageRequirementMet 85]
   \<and> concat (map summary_of (new_logs streamer0 (end_session None 5 8 0 2 85 streamer0)))
        = [(''info'', True, 0)]
   \<and> fst (enforce_coverage 85 0 streamer0) = 0"
proof -
  have s: "supabase streamer0" by (simp add: streamer0_def)
  note a = coverage_gate [where coverage = 75 and st = streamer0 and fault = None and now = 5
      and passed = 10 and failed = 0 and skipped = 0 and testsfailed = 0 and st' = streamer0]
  note b = coverage_gate [where coverage = 85 and st = streamer0 and fault = None and now = 5
      and passed = 8 and failed = 0 and skipped = 2 and testsfailed = 0 and st' = streamer0]
  from a b s show ?thesis by simp
qed

section \<open>The sweep of expired sandboxes\<close>

lemma terminated_alt:
  "terminated x s = (\<not> dict_in x (active_sandboxes s) \<and> filter (live_row x) (sandboxes_table s) = [])"
  by (simp add: terminated_def live_row_def [abs_def])

lemma stop_rows_Nil: "stop_rows sid now [] = []"
  by (simp add: stop_rows_def)

lemma stop_rows_Cons:
  "stop_rows sid now (r # rs) =
     (if e2b_sandbox_id r = sid then r\<lparr>status := ''stopped'', last_activity_at := now\<rparr> else r)
       # stop_rows sid now rs"
  by (simp add: stop_rows_def)

lemma stop_rows_keeps_dead:
  "filter (live_row x) rows = [] \<Longrightarrow> filter (live_row x) (stop_rows sid now rows) = []"
proof (induction rows)
  case Nil
  then show ?case by (simp add: stop_rows_Nil)
next
  case (Cons r rows)
  from Cons.prems have a: "\<not> live_row x r" and b: "filter (live_row x) rows = []"
    by (simp_all split: if_splits)
  from a have "\<not> live_row x (if e2b_sandbox_id r = sid
      then r\<lparr>status := ''stopped'', last_activity_at := now\<rparr> else r)"
    by (simp add: live_row_def)
  with Cons.IH [OF b] show ?case by (simp add: stop_rows_Cons)
qed

lemma stop_rows_kills: "filter (live_row sid) (stop_rows sid now rows) = []"
proof (induction rows)
  case Nil
  then show ?case by (simp add: stop_rows_Nil)
next
  case (Cons r rows)
  have "\<not> live_row sid (if e2b_sandbox_id r = sid
      then r\<lparr>status := ''stopped'', last_activity_at := now\<rparr> else r)"
    by (simp add: live_row_def)
  with Cons.IH show ?case by (simp add: stop_rows_Cons)
qed

lemma dict_in_delete_mono: "dict_in x (AList.delete k d) \<Longrightarrow> dict_in x d"
  by (simp add: dict_in_def delete_conv' split: if_splits)

lemma destroy_effect:
  "(active_sandboxes (snd (destroy_sandbox env sid s)) = active_sandboxes s
      \<or> active_sandboxes (snd (destroy_sandbox env sid s)) = AList.delete sid (active_sandboxes s))
   \<and> (sandboxes_table (snd (destroy_sandbox env sid s)) = sandboxes_table s
      \<or> sandboxes_table (snd (destroy_sandbox env sid s))
           = stop_rows sid (destroy_utcnow env) (sandboxes_table s))"
  by (simp add: destroy_sandbox_def destroy_body_def Let_def stream_sandbox_event_frame
        split: option.splits)

lemma destroy_true:
  "fst (destroy_sandbox env sid s) \<Longrightarrow>
     \<not> dict_in sid (active_sandboxes (snd (destroy_sandbox env sid s)))
     \<and> sandboxes_table (snd (destroy_sandbox env sid s))
         = stop_rows sid (destroy_utcnow env) (sandboxes_table s)"
  by (simp add: destroy_sandbox_def destroy_body_def Let_def stream_sandbox_event_frame
        dict_in_delete split: option.splits if_splits)

lemma destroy_succeeds:
  "close_fault env = None \<Longrightarrow> update_fault env = None \<Longrightarrow> fst (destroy_sandbox env sid s)"
  by (simp add: destroy_sandbox_def destroy_body_def Let_def)

lemma destroy_keeps_terminated:
  assumes "terminated x s"
  shows "terminated x (snd (destroy_sandbox env sid s))"
proof -
  from assms have a: "\<not> dict_in x (active_sandboxes s)"
    and b: "filter (live_row x) (sandboxes_table s) = []"
    by (simp_all add: terminated_alt)
  from destroy_effect [of env sid s] a
  have a': "\<not> dict_in x (active_sandboxes (snd (destroy_sandbox env sid s)))"
    using dict_in_delete_mono [of x sid "active_sandboxes s"] by auto
  from destroy_effect [of env sid s] b stop_rows_keeps_dead [OF b, of sid "destroy_utcnow env"]
  have b': "filter (live_row x) (sandboxes_table (snd (destroy_sandbox env sid s))) = []"
    by auto
  from a' b' show ?thesis by (simp add: terminated_alt)
qed

lemma destroy_true_terminated:
  assumes "fst (destroy_sandbox env sid s)"
  shows "terminated sid (snd (destroy_sandbox env sid s))"
  using destroy_true [OF assms] stop_rows_kills [of sid "destroy_utcnow env" "sandboxes_table s"]
  by (simp add: terminated_alt)

lemma cleanup_loop_count:
  "fst (cleanup_loop envs i rs c s) = c + length (filter id (cleanup_results envs i rs s))"
proof (induction rs arbitrary: i c s)
  case Nil
  then show ?case by simp
next
  case (Cons r rs)
  obtain ok s' where d: "destroy_sandbox (envs i) (e2b_sandbox_id r) s = (ok, s')"
    by (cases "destroy_sandbox (envs i) (e2b_sandbox_id r) s")
  show ?case
    using Cons.IH [of "Suc i" "if ok then c + 1 else c" s'] d by simp
qed

lemma cleanup_results_length: "length (cleanup_results envs i rs s) = length rs"
proof (induction rs arbitrary: i s)
  case Nil
  then show ?case by simp
next
  case (Cons r rs)
  obtain ok s' where d: "destroy_sandbox (envs i) (e2b_sandbox_id r) s = (ok, s')"
    by (cases "destroy_sandbox (envs i) (e2b_sandbox_id r) s")
  show ?case using Cons.IH [of "Suc i" s'] d by simp
qed

lemma cleanup_loop_keeps_terminated:
  "terminated x s \<Longrightarrow> terminated x (snd (cleanup_loop envs i rs c s))"
proof (induction rs arbitrary: i c s)
  case Nil
  then show ?case by simp
next
  case (Cons r rs)
  obtain ok s' where d: "destroy_sandbox (envs i) (e2b_sandbox_id r) s = (ok, s')"
    by (cases "destroy_sandbox (envs i) (e2b_sandbox_id r) s")
  from destroy_keeps_terminated [OF Cons.prems, of "envs i" "e2b_sandbox_id r"] d
  have "terminated x s'" by simp
  from Cons.IH [OF this, of "Suc i" "if ok then c + 1 else c"] d show ?case by simp
qed

lemma cleanup_loop_terminates_successes:
  "k < length rs \<Longrightarrow> cleanup_results envs i rs s ! k \<Longrightarrow>
     terminated (e2b_sandbox_id (rs ! k)) (snd (cleanup_loop envs i rs c s))"
proof (induction rs arbitrary: i c s k)
  case Nil
  then show ?case by simp
next
  case (Cons r rs)
  obtain ok s' where d: "destroy_sandbox (envs i) (e2b_sandbox_id r) s = (ok, s')"
    by (cases "destroy_sandbox (envs i) (e2b_sandbox_id r) s")
  show ?case
  proof (cases k)
    case 0
    with Cons.prems d have ok by simp
    with d destroy_true_terminated [of "envs i" "e2b_sandbox_id r" s]
    have "terminated (e2b_sandbox_id r) s'" by simp
    from cleanup_loop_keeps_terminated [OF this, of envs "Suc i" rs "if ok then c + 1 else c"] d 0
    show ?thesis by simp
  next
    case (Suc j)
    with Cons.prems d have "j < length rs" "cleanup_results envs (Suc i) rs s' ! j" by simp_all
    from Cons.IH [OF this, of "if ok then c + 1 else c"] d Suc show ?thesis by simp
  qed
qed

lemma cleanup_results_success:
  "k < length rs \<Longrightarrow> close_fault (envs (i + k)) = None \<Longrightarrow> update_fault (envs (i + k)) = None \<Longrightarrow>
     cleanup_results envs i rs s ! k"
proof (induction rs arbitrary: i s k)
  case Nil
  then show ?case by simp
next
  case (Cons r rs)
  obtain ok s' where d: "destroy_sandbox (envs i) (e2b_sandbox_id r) s = (ok, s')"
    by (cases "destroy_sandbox (envs i) (e2b_sandbox_id r) s")
  show ?case
  proof (cases k)
    case 0
    with Cons.prems destroy_succeeds [of "envs i" "e2b_sandbox_id r" s] d show ?thesis by simp
  next
    case (Suc j)
    with Cons.prems have "j < length rs" "close_fault (envs (Suc i + j)) = None"
      "update_fault (envs (Suc i + j)) = None" by simp_all
    from Cons.IH [OF this, of s'] d Suc show ?thesis by simp
  qed
qed

lemma select_expired_iff:
  "r \<in> set (select_expired now rows) \<longleftrightarrow> r \<in> set rows \<and> expires_at r < now \<and> status r = ''running''"
  unfolding select_expired_def set_filter by blast

text \<open>
  Claim C7, as amended. The selection returns a row exactly when its expiry is strictly
  before the given time and its status is \<^verbatim>\<open>running\<close>. When the selection query raises, the
  sweep returns 0 and changes nothing. Otherwise \<^verbatim>\<open>destroy_sandbox\<close> is called once for
  every selected row, in order, whatever the calls before it returned; the sweep returns the
  number of these calls that returned \<^verbatim>\<open>True\<close>; after the sweep every selected id whose call
  returned \<^verbatim>\<open>True\<close> is terminated; and a call whose \<^verbatim>\<open>close\<close> and store update both return
  does return \<^verbatim>\<open>True\<close>.
\<close>

theorem sweep_expired:
  "(r \<in> set (select_expired now rows) \<longleftrightarrow>
      r \<in> set rows \<and> expires_at r < now \<and> status r = ''running'')
   \<and> cleanup_expired_sandboxes (Some m) now envs s = (0, s)
   \<and> fst (cleanup_expired_sandboxes None now envs s)
       = length (filter id (cleanup_results envs 0 (select_expired now (sandboxes_table s)) s))
   \<and> length (cleanup_results envs 0 (select_expired now (sandboxes_table s)) s)
       = length (select_expired now (sandboxes_table s))
   \<and> (\<forall>k < length (select_expired now (sandboxes_table s)).
         (cleanup_results envs 0 (select_expired now (sandboxes_table s)) s ! k \<longrightarrow>
            terminated (e2b_sandbox_id (select_expired now (sandboxes_table s) ! k))
              (snd (cleanup_expired_sandboxes None now envs s)))
       \<and> ((close_fault (envs k) = None \<and> update_fault (envs k) = None) \<longrightarrow>
            cleanup_results envs 0 (select_expired now (sandboxes_table s)) s ! k))"
proof (intro conjI allI impI)
  show "r \<in> set (select_expired now rows) \<longleftrightarrow>
      r \<in> set rows \<and> expires_at r < now \<and> status r = ''running''"
    by (rule select_expired_iff)
  show "cleanup_expired_sandboxes (Some m) now envs s = (0, s)"
    by (simp add: cleanup_expired_sandboxes_def)
  show "fst (cleanup_expired_sandboxes None now envs s)
       = length (filter id (cleanup_results envs 0 (select_expired now (sandboxes_table s)) s))"
    by (simp add: cleanup_expired_sandboxes_def cleanup_loop_count)
  show "length (cleanup_results envs 0 (select_expired now (sandboxes_table s)) s)
       = length (select_expired now (sandboxes_table s))"
    by (rule cleanup_results_length)
next
  fix k
  assume "k < length (select_expired now (sandboxes_table s))"
    and "cleanup_results envs 0 (select_expired now (sandboxes_table s)) s ! k"
  from cleanup_loop_terminates_successes [OF this, of 0]
  show "terminated (e2b_sandbox_id (select_expired now (sandboxes_table s) ! k))
              (snd (cleanup_expired_sandboxes None now envs s))"
    by (simp add: cleanup_expired_sandboxes_def)
next
  fix k
  assume k: "k < length (select_expired now (sandboxes_table s))"
    and f: "close_fault (envs k) = None \<and> update_fault (envs k) = None"
  from cleanup_results_success [OF k, of envs 0 s] f
  show "cleanup_results envs 0 (select_expired now (sandboxes_table s)) s ! k" by simp
qed

theorem sweep_expired_witness:
  "select_expired sweep_now (sandboxes_table sweep_manager) = [row0, row2]
   \<and> cleanup_results sweep_envs 0 (select_expired sweep_now (sandboxes_table sweep_manager))
        sweep_manager = [False, True]
   \<and> close_fault (sweep_envs 1) = None \<and> update_fault (sweep_envs 1) = None
   \<and> fst (cleanup_expired_sandboxes None sweep_now sweep_envs sweep_manager) = 1
   \<and> terminated ''sbx-2'' (snd (cleanup_expired_sandboxes None sweep_now sweep_envs sweep_manager))"
proof -
  have sel: "select_expired sweep_now (sandboxes_table sweep_manager) = [row0, row2]"
    by (simp add: select_expired_def sweep_now_def sweep_manager_def row2_def row0_def)
  have ids: "e2b_sandbox_id row0 = ''sbx-1''" "e2b_sandbox_id row2 = ''sbx-2''"
    by (simp_all add: row2_def row0_def)
  have res: "cleanup_results sweep_envs 0 [row0, row2] sweep_manager = [False, True]"
    by (simp add: ids destroy_sandbox_def destroy_body_def Let_def sweep_envs_def
          sweep_manager_def manager1_def dict_in_def destroy_env_close_fails_def destroy_env0_def)
  have env1: "close_fault (sweep_envs 1) = None \<and> update_fault (sweep_envs 1) = None"
    by (simp add: sweep_envs_def destroy_env0_def)
  note t = sweep_expired [where now = sweep_now and envs = sweep_envs and s = sweep_manager
      and r = row0 and rows = "[row0]" and m = "''down''"]
  from t have c: "fst (cleanup_expired_sandboxes None sweep_now sweep_envs sweep_manager)
      = length (filter id (cleanup_results sweep_envs 0
          (select_expired sweep_now (sandboxes_table sweep_manager)) sweep_manager))"
    by blast
  from t have "\<forall>k < length (select_expired sweep_now (sandboxes_table sweep_manager)).
      (cleanup_results sweep_envs 0 (select_expired sweep_now (sandboxes_table sweep_manager))
          sweep_manager ! k \<longrightarrow>
         terminated (e2b_sandbox_id (select_expired sweep_now (sandboxes_table sweep_manager) ! k))
           (snd (cleanup_expired_sandboxes None sweep_now sweep_envs sweep_manager)))"
    by blast
  then have "1 < length [row0, row2] \<longrightarrow> [False, True] ! 1 \<longrightarrow>
      terminated (e2b_sandbox_id ([row0, row2] ! 1))
        (snd (cleanup_expired_sandboxes None sweep_now sweep_envs sweep_manager))"
    unfolding sel res by blast
  then have tm: "terminated ''sbx-2''
      (snd (cleanup_expired_sandboxes None sweep_now sweep_envs sweep_manager))"
    by (simp add: ids)
  from c have cnt: "fst (cleanup_expired_sandboxes None sweep_now sweep_envs sweep_manager) = 1"
    unfolding sel res by simp
  from sel res env1 cnt tm show ?thesis by simp
qed

text \<open>
  The claim as first stated fails twice: a running row whose expiry equals the given time
  is not selected, and a selected sandbox whose destroy fails is still running after the
  sweep.
\<close>

theorem sweep_boundary_and_failed_destroy:
  "expires_at row0 \<le> 3600000010 \<and> status row0 = ''running''
   \<and> select_expired 3600000010 [row0] = []
   \<and> select_expired sweep_now (sandboxes_table manager1) = [row0]
   \<and> e2b_sandbox_id row0 = ''sbx-1''
   \<and> cleanup_expired_sandboxes None sweep_now failing_envs manager1
       = (0, manager1\<lparr>provider_calls := [PCreate ''Python3'', PClose ''sbx-1'']\<rparr>)
   \<and> \<not> terminated ''sbx-1'' (snd (cleanup_expired_sandboxes None sweep_now failing_envs manager1))"
proof -
  have sel: "select_expired sweep_now (sandboxes_table manager1) = [row0]"
    by (simp add: select_expired_def sweep_now_def manager1_def row0_def)
  have b: "expires_at row0 \<le> 3600000010 \<and> status row0 = ''running''
      \<and> select_expired 3600000010 [row0] = [] \<and> e2b_sandbox_id row0 = ''sbx-1''"
    by (simp add: select_expired_def row0_def)
  have c: "cleanup_expired_sandboxes None sweep_now failing_envs manager1
       = (0, manager1\<lparr>provider_calls := [PCreate ''Python3'', PClose ''sbx-1'']\<rparr>)"
  proof -
    have sel2: "select_expired sweep_now [row0] = [row0]"
      by (simp add: select_expired_def sweep_now_def row0_def)
    from b have i: "e2b_sandbox_id row0 = ''sbx-1''" by simp
    show ?thesis
      by (simp add: cleanup_expired_sandboxes_def sel2 i destroy_sandbox_def destroy_body_def
            Let_def failing_envs_def destroy_env_close_fails_def destroy_env0_def manager1_def
            dict_in_def)
  qed
  have d: "\<not> terminated ''sbx-1'' (manager1\<lparr>provider_calls := [PCreate ''Python3'', PClose ''sbx-1'']\<rparr>)"
    by (simp add: terminated_def manager1_def dict_in_def)
  from sel b c d show ?thesis by simp
qed

end
